theory Spec2Isabelle
  imports Main "HOL-Library.Code_Target_Numeral"
begin

section \<open>Python strings\<close>

text \<open>
  Strings are lists of characters, a character being a code point below 256. The
  functions below are the string operations of Python that
  \<^verbatim>\<open>ubuntu_config_service.py\<close> uses, on such text.
\<close>

text \<open>\<^verbatim>\<open>p in s\<close> on strings.\<close>

fun isin :: "string \<Rightarrow> string \<Rightarrow> bool" where
  "isin p [] = (p = [])"
| "isin p (c # cs) = (take (length p) (c # cs) = p \<or> isin p cs)"

text \<open>\<^verbatim>\<open>s.startswith(p)\<close>.\<close>

definition startswith :: "string \<Rightarrow> string \<Rightarrow> bool" where
  "startswith s p = (take (length p) s = p)"

text \<open>\<^verbatim>\<open>sep.join(xs)\<close>.\<close>

fun join :: "string \<Rightarrow> string list \<Rightarrow> string" where
  "join sep [] = []"
| "join sep [x] = x"
| "join sep (x # y # ys) = x @ sep @ join sep (y # ys)"

text \<open>\<^verbatim>\<open>s.split(c)\<close> for a separator of one character.\<close>

fun split_on :: "char \<Rightarrow> string \<Rightarrow> string list" where
  "split_on c [] = [[]]"
| "split_on c (x # xs) =
     (if x = c then [] # split_on c xs
      else (case split_on c xs of [] \<Rightarrow> [[x]] | h # t \<Rightarrow> (x # h) # t))"

text \<open>
  \<^verbatim>\<open>str.isspace\<close>, which is also the class \<^verbatim>\<open>\s\<close> of a pattern: tab, line feed,
  vertical tab, form feed, carriage return, the four separators 0x1C to 0x1F, the space,
  the next-line character 0x85 and the no-break space 0xA0.
\<close>

definition is_space :: "char \<Rightarrow> bool" where
  "is_space c =
     (let n = (of_char c :: nat)
      in (9 \<le> n \<and> n \<le> 13) \<or> (28 \<le> n \<and> n \<le> 32) \<or> n = 133 \<or> n = 160)"

text \<open>\<^verbatim>\<open>s.strip()\<close>.\<close>

definition strip :: "string \<Rightarrow> string" where
  "strip s = rev (dropWhile is_space (rev (dropWhile is_space s)))"

text \<open>
  \<^verbatim>\<open>s.lower()\<close>: the capital letters A to Z, and 0xC0 to 0xDE without the
  multiplication sign 0xD7, have their small letter 32 places further.
\<close>

definition lower_char :: "char \<Rightarrow> char" where
  "lower_char c =
     (let n = (of_char c :: nat)
      in if (65 \<le> n \<and> n \<le> 90) \<or> (192 \<le> n \<and> n \<le> 222 \<and> n \<noteq> 215) then char_of (n + 32) else c)"

definition lower :: "string \<Rightarrow> string" where
  "lower s = map lower_char s"

text \<open>
  The decimal digits 0 to 9: \<^verbatim>\<open>c.isascii() and c.isdigit()\<close>, and the class \<^verbatim>\<open>\d\<close> of
  a pattern, which has no other member below 256.
\<close>

definition is_digit :: "char \<Rightarrow> bool" where
  "is_digit c = (let n = (of_char c :: nat) in 48 \<le> n \<and> n \<le> 57)"

definition digit_val :: "char \<Rightarrow> nat" where
  "digit_val c = of_char c - 48"

text \<open>\<^verbatim>\<open>int(s)\<close> for a string of decimal digits.\<close>

definition int_of_digits :: "string \<Rightarrow> nat" where
  "int_of_digits s = foldl (\<lambda>a c. 10 * a + digit_val c) 0 s"

text \<open>\<^verbatim>\<open>str(n)\<close> for a non-negative integer.\<close>

function str_nat :: "nat \<Rightarrow> string" where
  "str_nat n = (if n < 10 then [char_of (48 + n)] else str_nat (n div 10) @ [char_of (48 + n mod 10)])"
  by pat_completeness auto
termination
  by (relation "measure id") auto

declare str_nat.simps [simp del]

text \<open>
  A value read from the request with \<^verbatim>\<open>data.get(key)\<close>: \<open>None\<close> when the key is
  absent or null, a string otherwise. \<open>truthy\<close> is Python's truth value of it,
  \<open>py_str\<close> is how an f-string renders it.
\<close>

definition truthy :: "string option \<Rightarrow> bool" where
  "truthy v = (case v of None \<Rightarrow> False | Some s \<Rightarrow> s \<noteq> [])"

definition py_str :: "string option \<Rightarrow> string" where
  "py_str v = (case v of None \<Rightarrow> ''None'' | Some s \<Rightarrow> s)"

definition sq :: string where
  "sq = [CHR 0x27]"

definition dq :: string where
  "dq = [CHR 0x22]"

definition unlines :: "string list \<Rightarrow> string" where
  "unlines ls = concat (map (\<lambda>l. l @ [CHR 0x0A]) ls)"

section \<open>The host: commands, files and the trace of effects\<close>

text \<open>
  A YAML-serialisable Python value; a dict keeps its insertion order.
\<close>

datatype yaml = YStr string | YInt int | YBool bool | YList "yaml list" | YDict "(string \<times> yaml) list"

datatype content = Text string | Yaml yaml

text \<open>
  What \<^verbatim>\<open>subprocess.run(command_list, capture_output=True, text=True, check=True)\<close> does:
  the process exits with a return code, stdout and stderr; or the executable is missing
  (\<^verbatim>\<open>FileNotFoundError\<close>); or another exception is raised, with its text.
\<close>

datatype proc_result = Exited int string string | FileNotFound | Raised string

text \<open>
  The effects of the service, in the order they happen. \<open>Cmd argv spawned ok out\<close> is
  one call of \<^verbatim>\<open>run_command\<close>: \<open>argv\<close> after the removal of \<^verbatim>\<open>sudo\<close>, whether a
  process was spawned for it, and the pair the call returned. \<open>FileWrite\<close> is an
  \<^verbatim>\<open>open(path, 'w')\<close> with the content written and whether it went through,
  \<open>MakeDirs\<close> an \<^verbatim>\<open>os.makedirs\<close>.
\<close>

datatype event =
    Cmd (ev_argv: "string list") (ev_spawned: bool) (ev_ok: bool) (ev_out: string)
  | FileWrite string content bool
  | MakeDirs string bool

text \<open>
  The host as the service sees it. The outcome of a process and of a file operation may
  depend on everything done before (the trace). \<open>io_error\<close> gives the text of the
  exception that writing below a path raises, if any. \<open>os_release\<close> is the content of
  \<^verbatim>\<open>/etc/os-release\<close> (\<open>None\<close>: it cannot be read), \<open>sys_class_net\<close> the entries of
  \<^verbatim>\<open>/sys/class/net\<close> with their \<^verbatim>\<open>is_dir()\<close> (\<open>None\<close>: the scan raises).
\<close>

record world =
  IN_DOCKER_TEST_MODE :: bool
  subprocess_run :: "event list \<Rightarrow> string list \<Rightarrow> proc_result"
  io_error :: "event list \<Rightarrow> string \<Rightarrow> string option"
  os_release :: "string option"
  sys_class_net :: "(string \<times> bool) list option"

type_synonym 'a eff = "'a \<times> event list"

section \<open>Command Executor: \<^verbatim>\<open>run_command\<close>\<close>

definition mockable :: "string list" where
  "mockable = [''timedatectl'', ''netplan'', ''dhclient'', ''systemctl'', ''pkill'']"

definition remove_sudo :: "string list \<Rightarrow> string list" where
  "remove_sudo command_list =
     (case command_list of [] \<Rightarrow> [] | c # cs \<Rightarrow> if c = ''sudo'' then cs else c # cs)"

definition mock_output :: "string list \<Rightarrow> string" where
  "mock_output command_list =
     ''Mocked: '' @ join '' '' command_list @ '' - This command would normally run on a full Ubuntu OS.''"

text \<open>The handler of \<^verbatim>\<open>subprocess.CalledProcessError\<close>.\<close>

definition called_process_error :: "string \<Rightarrow> string \<Rightarrow> string \<Rightarrow> bool \<times> string" where
  "called_process_error name out err =
     (let error_output = strip (if err \<noteq> [] then err else if out \<noteq> [] then out else [])
      in if isin ''command not found'' (lower error_output) \<or> isin ''No such file or directory'' error_output
         then (False, ''Command '' @ sq @ name @ sq @ '' not found. Ensure it is installed and in PATH.'')
         else if isin ''systemd as init system (PID 1)'' error_output \<or> isin ''Failed to connect to bus'' error_output
         then (False, ''Cannot execute '' @ sq @ name @ sq @
                 '': This command requires systemd as init system (PID 1) and D-Bus, which are typically not available in a standard Docker container. This service is intended for a full Ubuntu OS.'')
         else (False, ''Command execution failed: '' @ error_output))"

text \<open>
  What \<^verbatim>\<open>run_command\<close> returns for a process that was spawned: the \<^verbatim>\<open>try\<close> body
  and its three \<^verbatim>\<open>except\<close> clauses.
\<close>

definition process_outcome :: "string \<Rightarrow> proc_result \<Rightarrow> bool \<times> string" where
  "process_outcome command_name r =
     (case r of
        Exited rc out err \<Rightarrow>
          if rc = 0 then (True, strip out) else called_process_error command_name out err
      | FileNotFound \<Rightarrow>
          (False, ''Command '' @ sq @ command_name @ sq @ '' not found. Is it installed and in PATH?'')
      | Raised e \<Rightarrow> (False, ''An unexpected error occurred: '' @ e))"

text \<open>
  \<^verbatim>\<open>run_command\<close>. With an empty argument list \<^verbatim>\<open>subprocess.run\<close> raises before any
  process exists, which the last handler turns into a failure.
\<close>

definition run_command :: "world \<Rightarrow> event list \<Rightarrow> string list \<Rightarrow> (bool \<times> string) eff" where
  "run_command w tr command_list0 =
     (let command_list = remove_sudo command_list0 in
      case command_list of
        [] \<Rightarrow>
          (let r = (False, ''An unexpected error occurred: list index out of range'')
           in (r, tr @ [Cmd [] False (fst r) (snd r)]))
      | command_name # args \<Rightarrow>
          if IN_DOCKER_TEST_MODE w \<and> command_name \<in> set mockable then
            (let out = (if command_name = ''dhclient'' \<and> ''-r'' \<in> set command_list
                        then ''Mocked: DHCP release successful.''
                        else mock_output command_list)
             in ((True, out), tr @ [Cmd command_list False True out]))
          else
            (let r = process_outcome command_name (subprocess_run w tr command_list)
             in (r, tr @ [Cmd command_list True (fst r) (snd r)])))"

text \<open>The events a call added to the trace.\<close>

definition new_events :: "event list \<Rightarrow> event list \<Rightarrow> event list" where
  "new_events tr tr' = drop (length tr) tr'"

section \<open>Subnet mask to prefix length\<close>

text \<open>
  \<^verbatim>\<open>subnet_mask_to_cidr\<close> asks the standard library:
  \<^verbatim>\<open>ipaddress.IPv4Network(f'0.0.0.0/{subnet_mask}', strict=False).prefixlen\<close>, and returns
  \<^verbatim>\<open>None\<close> on every exception. The definitions up to \<open>make_netmask\<close> follow CPython's
  \<^verbatim>\<open>ipaddress\<close> module function by function; \<open>None\<close> stands for the exception each raises.
\<close>

text \<open>\<^verbatim>\<open>IPv4Address._parse_octet\<close>.\<close>

definition parse_octet :: "string \<Rightarrow> nat option" where
  "parse_octet octet_str =
     (case octet_str of
        [] \<Rightarrow> None
      | c # cs \<Rightarrow>
          if \<not> list_all is_digit octet_str then None
          else if length octet_str > 3 then None
          else if octet_str \<noteq> ''0'' \<and> c = CHR ''0'' then None
          else (let octet_int = int_of_digits octet_str
                in if octet_int > 255 then None else Some octet_int))"

text \<open>\<^verbatim>\<open>IPv4Address._ip_int_from_string\<close>.\<close>

definition ip_int_from_string :: "string \<Rightarrow> nat option" where
  "ip_int_from_string ip_str =
     (if ip_str = [] then None
      else (let octets = split_on CHR ''.'' ip_str
            in if length octets \<noteq> 4 then None
               else (case those (map parse_octet octets) of
                       None \<Rightarrow> None
                     | Some bs \<Rightarrow> Some (foldl (\<lambda>a b. a * 256 + b) 0 bs))))"

text \<open>\<^verbatim>\<open>_count_righthand_zero_bits(number, bits)\<close>.\<close>

fun count_righthand_zero_bits :: "nat \<Rightarrow> nat \<Rightarrow> nat" where
  "count_righthand_zero_bits number 0 = 0"
| "count_righthand_zero_bits number (Suc bits) =
     (if number = 0 then Suc bits
      else if number mod 2 = 0 then Suc (count_righthand_zero_bits (number div 2) bits)
      else 0)"

text \<open>\<^verbatim>\<open>_prefix_from_ip_int\<close>: the mask must be ones followed by zeroes.\<close>

definition prefix_from_ip_int :: "nat \<Rightarrow> nat option" where
  "prefix_from_ip_int ip_int =
     (let trailing_zeroes = count_righthand_zero_bits ip_int 32;
          prefixlen = 32 - trailing_zeroes;
          leading_ones = ip_int div 2 ^ trailing_zeroes;
          all_ones = 2 ^ prefixlen - 1
      in if leading_ones \<noteq> all_ones then None else Some prefixlen)"

text \<open>\<^verbatim>\<open>_prefix_from_prefix_string\<close>: a prefix length written in decimal.\<close>

definition prefix_from_prefix_string :: "string \<Rightarrow> nat option" where
  "prefix_from_prefix_string prefixlen_str =
     (if \<not> (prefixlen_str \<noteq> [] \<and> list_all is_digit prefixlen_str) then None
      else (let prefixlen = int_of_digits prefixlen_str
            in if prefixlen \<le> 32 then Some prefixlen else None))"

text \<open>
  \<^verbatim>\<open>_prefix_from_ip_string\<close>: a dotted quad, read as a netmask and, failing that, with its
  bits inverted as a hostmask.
\<close>

definition prefix_from_ip_string :: "string \<Rightarrow> nat option" where
  "prefix_from_ip_string ip_str =
     (case ip_int_from_string ip_str of
        None \<Rightarrow> None
      | Some ip_int \<Rightarrow>
          (case prefix_from_ip_int ip_int of
             Some p \<Rightarrow> Some p
           | None \<Rightarrow> prefix_from_ip_int (4294967295 - ip_int)))"

text \<open>\<^verbatim>\<open>_make_netmask\<close> for a string.\<close>

definition make_netmask :: "string \<Rightarrow> nat option" where
  "make_netmask arg =
     (case prefix_from_prefix_string arg of
        Some p \<Rightarrow> Some p
      | None \<Rightarrow> prefix_from_ip_string arg)"

text \<open>
  \<^verbatim>\<open>subnet_mask_to_cidr\<close>: the text is split at the slashes (more than one is an error),
  the address part is parsed, then the mask part.
\<close>

definition subnet_mask_to_cidr :: "string \<Rightarrow> nat option" where
  "subnet_mask_to_cidr subnet_mask =
     (case split_on CHR ''/'' (''0.0.0.0/'' @ subnet_mask) of
        [a, m] \<Rightarrow> (case ip_int_from_string a of None \<Rightarrow> None | Some _ \<Rightarrow> make_netmask m)
      | [a] \<Rightarrow> (case ip_int_from_string a of None \<Rightarrow> None | Some _ \<Rightarrow> Some 32)
      | _ \<Rightarrow> None)"

section \<open>Date and time validation\<close>

text \<open>
  \<^verbatim>\<open>datetime.strptime(s, "%Y-%m-%d %H:%M")\<close> raises \<^verbatim>\<open>ValueError\<close> unless \<open>s\<close> matches
  the pattern the standard library builds from the format, with nothing left over, and
  the fields form a date of the calendar. The pattern is
  \<^verbatim>\<open>(\d\d\d\d)-(1[0-2]|0[1-9]|[1-9])-(3[0-1]|[1-2]\d|0[1-9]|[1-9]| [1-9])\s+(2[0-3]|[0-1]\d|\d):([0-5]\d|\d)\<close>.
  Every field is followed by a character no digit matches, so the first alternative
  that matches is the only one that can, and the match is read off from left to right.
\<close>

definition take_Y :: "string \<Rightarrow> (nat \<times> string) option" where
  "take_Y s =
     (case s of
        a # b # c # d # rest \<Rightarrow>
          if list_all is_digit [a, b, c, d] then Some (int_of_digits [a, b, c, d], rest) else None
      | _ \<Rightarrow> None)"

definition in_range :: "char \<Rightarrow> char \<Rightarrow> char \<Rightarrow> bool" where
  "in_range lo hi c = ((of_char lo :: nat) \<le> of_char c \<and> (of_char c :: nat) \<le> of_char hi)"

definition take_m :: "string \<Rightarrow> (nat \<times> string) option" where
  "take_m s =
     (case s of
        [] \<Rightarrow> None
      | a # r \<Rightarrow>
          (case r of
             b # rest \<Rightarrow>
               if a = CHR ''1'' \<and> in_range CHR ''0'' CHR ''2'' b then Some (int_of_digits [a, b], rest)
               else if a = CHR ''0'' \<and> in_range CHR ''1'' CHR ''9'' b then Some (int_of_digits [a, b], rest)
               else if in_range CHR ''1'' CHR ''9'' a then Some (digit_val a, r)
               else None
           | [] \<Rightarrow> if in_range CHR ''1'' CHR ''9'' a then Some (digit_val a, r) else None))"

definition take_d :: "string \<Rightarrow> (nat \<times> string) option" where
  "take_d s =
     (case s of
        [] \<Rightarrow> None
      | a # r \<Rightarrow>
          (case r of
             b # rest \<Rightarrow>
               if a = CHR ''3'' \<and> in_range CHR ''0'' CHR ''1'' b then Some (int_of_digits [a, b], rest)
               else if in_range CHR ''1'' CHR ''2'' a \<and> is_digit b then Some (int_of_digits [a, b], rest)
               else if a = CHR ''0'' \<and> in_range CHR ''1'' CHR ''9'' b then Some (int_of_digits [a, b], rest)
               else if in_range CHR ''1'' CHR ''9'' a then Some (digit_val a, r)
               else if a = CHR '' '' \<and> in_range CHR ''1'' CHR ''9'' b then Some (digit_val b, rest)
               else None
           | [] \<Rightarrow> if in_range CHR ''1'' CHR ''9'' a then Some (digit_val a, r) else None))"

definition take_H :: "string \<Rightarrow> (nat \<times> string) option" where
  "take_H s =
     (case s of
        [] \<Rightarrow> None
      | a # r \<Rightarrow>
          (case r of
             b # rest \<Rightarrow>
               if a = CHR ''2'' \<and> in_range CHR ''0'' CHR ''3'' b then Some (int_of_digits [a, b], rest)
               else if in_range CHR ''0'' CHR ''1'' a \<and> is_digit b then Some (int_of_digits [a, b], rest)
               else if is_digit a then Some (digit_val a, r)
               else None
           | [] \<Rightarrow> if is_digit a then Some (digit_val a, r) else None))"

definition take_M :: "string \<Rightarrow> (nat \<times> string) option" where
  "take_M s =
     (case s of
        [] \<Rightarrow> None
      | a # r \<Rightarrow>
          (case r of
             b # rest \<Rightarrow>
               if in_range CHR ''0'' CHR ''5'' a \<and> is_digit b then Some (int_of_digits [a, b], rest)
               else if is_digit a then Some (digit_val a, r)
               else None
           | [] \<Rightarrow> if is_digit a then Some (digit_val a, r) else None))"

text \<open>A literal character of the pattern, and \<^verbatim>\<open>\s+\<close>.\<close>

definition take_lit :: "char \<Rightarrow> string \<Rightarrow> string option" where
  "take_lit c s = (case s of [] \<Rightarrow> None | x # xs \<Rightarrow> if x = c then Some xs else None)"

definition take_spaces :: "string \<Rightarrow> string option" where
  "take_spaces s = (case s of [] \<Rightarrow> None | x # xs \<Rightarrow> if is_space x then Some (dropWhile is_space xs) else None)"

definition is_leap :: "nat \<Rightarrow> bool" where
  "is_leap y = (y mod 4 = 0 \<and> (y mod 100 \<noteq> 0 \<or> y mod 400 = 0))"

definition days_in_month :: "nat \<Rightarrow> nat \<Rightarrow> nat" where
  "days_in_month y m =
     (if m = 2 then (if is_leap y then 29 else 28)
      else if m \<in> {4, 6, 9, 11} then 30 else 31)"

text \<open>The fields of a text that \<^verbatim>\<open>strptime\<close> accepts: year, month, day, hour, minute.\<close>

definition strptime :: "string \<Rightarrow> (nat \<times> nat \<times> nat \<times> nat \<times> nat) option" where
  "strptime s =
     (case take_Y s of None \<Rightarrow> None | Some (y, s1) \<Rightarrow>
      case take_lit CHR ''-'' s1 of None \<Rightarrow> None | Some s2 \<Rightarrow>
      case take_m s2 of None \<Rightarrow> None | Some (m, s3) \<Rightarrow>
      case take_lit CHR ''-'' s3 of None \<Rightarrow> None | Some s4 \<Rightarrow>
      case take_d s4 of None \<Rightarrow> None | Some (d, s5) \<Rightarrow>
      case take_spaces s5 of None \<Rightarrow> None | Some s6 \<Rightarrow>
      case take_H s6 of None \<Rightarrow> None | Some (h, s7) \<Rightarrow>
      case take_lit CHR '':'' s7 of None \<Rightarrow> None | Some s8 \<Rightarrow>
      case take_M s8 of None \<Rightarrow> None | Some (mi, s9) \<Rightarrow>
      if s9 \<noteq> [] then None
      else if y < 1 \<or> d > days_in_month y m then None
      else Some (y, m, d, h, mi))"

section \<open>Requests and responses\<close>

text \<open>
  The JSON body of a request, as \<^verbatim>\<open>request.get_json()\<close> returns it: \<open>None\<close> when there
  is none, otherwise the keys with their values (a string, or \<open>None\<close> for null).
  \<open>get_field\<close> is \<^verbatim>\<open>data.get(key)\<close>. A response is \<^verbatim>\<open>jsonify({"status": .., "message": ..}), code\<close>.
\<close>

type_synonym json_body = "(string \<times> string option) list option"

definition get_field :: "(string \<times> string option) list \<Rightarrow> string \<Rightarrow> string option" where
  "get_field data k = (case map_of data k of None \<Rightarrow> None | Some v \<Rightarrow> v)"

datatype response = Response (code: nat) (status: string) (message: string)

datatype exn = ValueError string | OtherException string

text \<open>The end of both handlers: \<^verbatim>\<open>if success: ... 200 else: ... 500\<close>.\<close>

definition respond :: "bool \<times> string \<Rightarrow> response" where
  "respond r = (if fst r then Response 200 ''success'' (snd r) else Response 500 ''error'' (snd r))"

text \<open>The \<^verbatim>\<open>except\<close> clauses of the handlers.\<close>

definition handle_exn :: "exn \<Rightarrow> response" where
  "handle_exn e =
     (case e of
        ValueError m \<Rightarrow> Response 400 ''error'' m
      | OtherException m \<Rightarrow> Response 500 ''error'' (''An unexpected error occurred: '' @ m))"

section \<open>Environment Detector: \<^verbatim>\<open>_get_ubuntu_version\<close>\<close>

definition version_id :: "string \<Rightarrow> string" where
  "version_id v = ''VERSION_ID='' @ dq @ v @ dq"

definition get_ubuntu_version :: "world \<Rightarrow> string" where
  "get_ubuntu_version w =
     (case os_release w of
        None \<Rightarrow> ''modern''
      | Some content \<Rightarrow>
          if isin (version_id ''16.04'') content then ''16.04''
          else if isin (version_id ''18.04'') content then ''18.04''
          else ''modern'')"

section \<open>Interface discovery: \<^verbatim>\<open>_get_network_interface_name\<close>\<close>

definition is_wired :: "string \<Rightarrow> bool" where
  "is_wired iface = (startswith iface ''eth'' \<or> startswith iface ''enp'')"

text \<open>The loop \<^verbatim>\<open>for iface in interfaces: if iface.startswith(..) ..: return iface\<close>.\<close>

fun first_wired :: "string list \<Rightarrow> string option" where
  "first_wired [] = None"
| "first_wired (iface # rest) = (if is_wired iface then Some iface else first_wired rest)"

definition get_network_interface_name :: "world \<Rightarrow> string option" where
  "get_network_interface_name w =
     (case sys_class_net w of
        None \<Rightarrow> None
      | Some entries \<Rightarrow>
          (let interfaces = map fst (filter snd entries)
           in case first_wired interfaces of
                Some iface \<Rightarrow> Some iface
              | None \<Rightarrow> (case interfaces of [] \<Rightarrow> None | iface # _ \<Rightarrow> Some iface)))"

section \<open>Netplan Artifact Builder: \<^verbatim>\<open>_generate_netplan_yaml\<close>\<close>

definition netplan_config :: "string \<Rightarrow> (string \<times> yaml) list \<Rightarrow> yaml" where
  "netplan_config interface_name settings =
     YDict [(''network'',
       YDict [(''version'', YInt 2), (''renderer'', YStr ''networkd''),
              (''ethernets'', YDict [(interface_name, YDict settings)])])]"

definition static_required :: string where
  "static_required = ''For static IP, ipAddress, subnetMask, and gateway are required.''"

definition invalid_ip_type :: "string option \<Rightarrow> string" where
  "invalid_ip_type ip_type =
     ''Invalid ipType: '' @ py_str ip_type @ ''. Must be '' @ sq @ ''dynamic'' @ sq @ '' or '' @ sq @ ''static'' @ sq @ ''.''"

definition generate_netplan_yaml ::
  "string option \<Rightarrow> string option \<Rightarrow> string option \<Rightarrow> string option \<Rightarrow> string option \<Rightarrow> string
     \<Rightarrow> exn + yaml" where
  "generate_netplan_yaml ip_type ip_address subnet_mask gateway dns_server interface_name =
     (if interface_name = [] then
        Inl (ValueError ''Network interface name is required to generate Netplan configuration.'')
      else if ip_type = Some ''dynamic'' then
        Inr (netplan_config interface_name [(''dhcp4'', YBool True)])
      else if ip_type = Some ''static'' then
        (if \<not> (truthy ip_address \<and> truthy subnet_mask \<and> truthy gateway) then
           Inl (ValueError static_required)
         else
           (case subnet_mask_to_cidr (py_str subnet_mask) of
              None \<Rightarrow> Inl (ValueError ''Invalid subnet mask provided for CIDR conversion.'')
            | Some cidr \<Rightarrow>
                Inr (netplan_config interface_name
                  ([(''dhcp4'', YBool False),
                    (''addresses'', YList [YStr (py_str ip_address @ ''/'' @ str_nat cidr)]),
                    (''routes'', YList [YDict [(''to'', YStr ''default''), (''via'', YStr (py_str gateway))]])]
                   @ (if truthy dns_server
                      then [(''nameservers'', YDict [(''addresses'', YList [YStr (py_str dns_server)])])]
                      else [])))))
      else Inl (ValueError (invalid_ip_type ip_type)))"

text \<open>Reading a document: \<^verbatim>\<open>d[k]\<close>, and the settings of an interface.\<close>

definition yget :: "string \<Rightarrow> yaml \<Rightarrow> yaml option" where
  "yget k y = (case y of YDict kvs \<Rightarrow> map_of kvs k | _ \<Rightarrow> None)"

definition ethernet :: "yaml \<Rightarrow> string \<Rightarrow> yaml option" where
  "ethernet doc interface_name =
     (case yget ''network'' doc of
        None \<Rightarrow> None
      | Some n \<Rightarrow> (case yget ''ethernets'' n of None \<Rightarrow> None | Some e \<Rightarrow> yget interface_name e))"

section \<open>Writing and applying: \<^verbatim>\<open>_write_and_apply_netplan\<close>\<close>

definition NETPLAN_CONFIG_DIR :: string where
  "NETPLAN_CONFIG_DIR = ''/etc/netplan/''"

definition NETPLAN_CONFIG_FILE :: string where
  "NETPLAN_CONFIG_FILE = ''/etc/netplan/01-vcns-network.yaml''"

definition net_error :: "string \<Rightarrow> bool \<times> string" where
  "net_error e = (False, ''Error applying network settings: '' @ e)"

definition write_and_apply_netplan :: "world \<Rightarrow> event list \<Rightarrow> yaml \<Rightarrow> (bool \<times> string) eff" where
  "write_and_apply_netplan w tr netplan_data =
     (case io_error w tr NETPLAN_CONFIG_DIR of
        Some e \<Rightarrow> (net_error e, tr @ [MakeDirs NETPLAN_CONFIG_DIR False])
      | None \<Rightarrow>
          (let tr1 = tr @ [MakeDirs NETPLAN_CONFIG_DIR True] in
           case io_error w tr1 NETPLAN_CONFIG_FILE of
             Some e \<Rightarrow> (net_error e, tr1 @ [FileWrite NETPLAN_CONFIG_FILE (Yaml netplan_data) False])
           | None \<Rightarrow>
               (let tr2 = tr1 @ [FileWrite NETPLAN_CONFIG_FILE (Yaml netplan_data) True] in
                case run_command w tr2 [''netplan'', ''apply''] of
                  ((success, out), tr3) \<Rightarrow>
                    if \<not> success
                    then (net_error (''Failed to apply Netplan configuration: '' @ out), tr3)
                    else ((True, ''Netplan configuration applied successfully.''), tr3))))"

section \<open>Legacy Network Configurator: \<^verbatim>\<open>_configure_legacy_network_ubuntu16\<close>\<close>

definition interfaces_file :: string where
  "interfaces_file = ''/etc/network/interfaces''"

definition interfaces_backup :: string where
  "interfaces_backup = ''/etc/network/interfaces.backup''"

text \<open>The text of the interface file, or the \<^verbatim>\<open>ValueError\<close> raised while building it.\<close>

definition interfaces_config ::
  "string option \<Rightarrow> string option \<Rightarrow> string option \<Rightarrow> string option \<Rightarrow> string option \<Rightarrow> string
     \<Rightarrow> string + string" where
  "interfaces_config ip_type ip_address subnet_mask gateway dns_server interface_name =
     (if ip_type = Some ''dynamic'' then
        Inr (unlines [''auto lo'', ''iface lo inet loopback'', '''',
                      ''auto '' @ interface_name,
                      ''iface '' @ interface_name @ '' inet dhcp''])
      else if ip_type = Some ''static'' then
        (if \<not> (truthy ip_address \<and> truthy subnet_mask \<and> truthy gateway) then Inl static_required
         else
           (let dns_config = (if truthy dns_server then ''    dns-nameservers '' @ py_str dns_server
                              else ''    dns-nameservers 8.8.8.8'')
            in Inr (unlines [''auto lo'', ''iface lo inet loopback'', '''',
                             ''auto '' @ interface_name,
                             ''iface '' @ interface_name @ '' inet static'',
                             ''    address '' @ py_str ip_address,
                             ''    netmask '' @ py_str subnet_mask,
                             ''    gateway '' @ py_str gateway,
                             dns_config])))
      else Inl (invalid_ip_type ip_type))"

text \<open>
  The handler \<^verbatim>\<open>except Exception as e\<close> of the function: the backup is copied back
  over the interface file, whatever was raised and wherever, and failure is returned.
\<close>

definition legacy_network_failed :: "world \<Rightarrow> event list \<Rightarrow> string \<Rightarrow> (bool \<times> string) eff" where
  "legacy_network_failed w tr e =
     (case run_command w tr [''cp'', interfaces_backup, interfaces_file] of
        (_, tr') \<Rightarrow> (net_error e, tr'))"

text \<open>The two ways of applying: the service restart, then \<^verbatim>\<open>ifdown\<close> and \<^verbatim>\<open>ifup\<close>.\<close>

definition legacy_apply :: "world \<Rightarrow> event list \<Rightarrow> string \<Rightarrow> (bool \<times> string) eff" where
  "legacy_apply w tr interface_name =
     (case run_command w tr [''service'', ''networking'', ''restart''] of
        ((success, out), tr1) \<Rightarrow>
          if \<not> success then
            (case run_command w tr1 [''ifdown'', interface_name] of
               ((success2, out2), tr2) \<Rightarrow>
                 if success2 then run_command w tr2 [''ifup'', interface_name]
                 else ((success2, out2), tr2))
          else ((success, out), tr1))"

definition configure_legacy_network_ubuntu16 ::
  "world \<Rightarrow> event list \<Rightarrow> string option \<Rightarrow> string option \<Rightarrow> string option \<Rightarrow> string option
     \<Rightarrow> string option \<Rightarrow> string \<Rightarrow> (bool \<times> string) eff" where
  "configure_legacy_network_ubuntu16 w tr ip_type ip_address subnet_mask gateway dns_server interface_name =
     (case interfaces_config ip_type ip_address subnet_mask gateway dns_server interface_name of
        Inl e \<Rightarrow> legacy_network_failed w tr e
      | Inr config \<Rightarrow>
          (case run_command w tr [''cp'', interfaces_file, interfaces_backup] of
             (_, tr1) \<Rightarrow>
               (case io_error w tr1 interfaces_file of
                  Some e \<Rightarrow> legacy_network_failed w (tr1 @ [FileWrite interfaces_file (Text config) False]) e
                | None \<Rightarrow>
                    (let tr2 = tr1 @ [FileWrite interfaces_file (Text config) True];
                         tr3 = (if ip_type = Some ''static''
                                then snd (run_command w tr2 [''dhclient'', ''-r'', interface_name])
                                else tr2)
                     in case legacy_apply w tr3 interface_name of
                          ((success, out), tr4) \<Rightarrow>
                            if \<not> success
                            then legacy_network_failed w tr4 (''Failed to apply network configuration: '' @ out)
                            else ((True, ''Network configuration applied successfully.''), tr4)))))"

section \<open>Legacy Time Configurator: \<^verbatim>\<open>_configure_legacy_time_ubuntu16\<close>\<close>

definition time_error :: "string \<Rightarrow> bool \<times> string" where
  "time_error e = (False, ''Error applying time settings: '' @ e)"

definition manual_required :: string where
  "manual_required = ''For manual time, manualDate and manualTime are required.''"

definition invalid_format :: string where
  "invalid_format = ''Invalid date or time format. Use YYYY-MM-DD and HH:MM.''"

text \<open>\<^verbatim>\<open>ntp_server or 'pool.ntp.org'\<close>.\<close>

definition server_or_default :: "string option \<Rightarrow> string" where
  "server_or_default ntp_server = (if truthy ntp_server then py_str ntp_server else ''pool.ntp.org'')"

definition ntp_config :: "string option \<Rightarrow> string" where
  "ntp_config ntp_server =
     unlines [''# NTP configuration for Ubuntu 16.04'',
              ''driftfile /var/lib/ntp/ntp.drift'',
              ''statistics loopstats peerstats clockstats'',
              ''filegen loopstats file loopstats type day enable'',
              ''filegen peerstats file peerstats type day enable'',
              ''filegen clockstats file clockstats type day enable'',
              '''',
              ''# Use specified NTP server or default'',
              ''server '' @ server_or_default ntp_server @ '' iburst'',
              ''server 0.ubuntu.pool.ntp.org iburst'',
              ''server 1.ubuntu.pool.ntp.org iburst'',
              '''',
              ''# Access control'',
              ''restrict -4 default kod notrap nomodify nopeer noquery limited'',
              ''restrict -6 default kod notrap nomodify nopeer noquery limited'',
              ''restrict 127.0.0.1'',
              ''restrict ::1'',
              '''',
              ''# Local clock fallback'',
              ''server 127.127.1.0'',
              ''fudge 127.127.1.0 stratum 10'']"

text \<open>
  The expression the function writes three times, for \<open>action\<close> \<^verbatim>\<open>stop\<close> and \<^verbatim>\<open>start\<close>:
  \<^verbatim>\<open>run_command(['systemctl', action, 'ntp']) if run_command(['which', 'systemctl'])[0]
  else run_command(['service', 'ntp', action])\<close>.
\<close>

definition ntp_service :: "world \<Rightarrow> event list \<Rightarrow> string \<Rightarrow> (bool \<times> string) eff" where
  "ntp_service w tr action =
     (case run_command w tr [''which'', ''systemctl''] of
        ((found, _), tr1) \<Rightarrow>
          if found then run_command w tr1 [''systemctl'', action, ''ntp'']
          else run_command w tr1 [''service'', ''ntp'', action])"

definition legacy_time_ntp :: "world \<Rightarrow> event list \<Rightarrow> string option \<Rightarrow> (bool \<times> string) eff" where
  "legacy_time_ntp w tr ntp_server =
     (let tr1 = snd (run_command w tr [''apt-get'', ''update'']);
          tr2 = snd (run_command w tr1 [''apt-get'', ''install'', ''-y'', ''ntpsec'']);
          tr3 = snd (ntp_service w tr2 ''stop'')
      in case io_error w tr3 ''/etc/ntp.conf'' of
           Some e \<Rightarrow> (time_error e, tr3 @ [FileWrite ''/etc/ntp.conf'' (Text (ntp_config ntp_server)) False])
         | None \<Rightarrow>
             (case ntp_service w (tr3 @ [FileWrite ''/etc/ntp.conf'' (Text (ntp_config ntp_server)) True]) ''start'' of
                ((success, out), tr4) \<Rightarrow>
                  if \<not> success then (time_error (''Failed to start NTP service: '' @ out), tr4)
                  else
                    (let tr5 = snd (run_command w tr4 [''ntpsec-ntpdate'', ''-s'', server_or_default ntp_server])
                     in ((True, ''NTP synchronization enabled successfully.''), tr5))))"

definition legacy_time_manual ::
  "world \<Rightarrow> event list \<Rightarrow> string option \<Rightarrow> string option \<Rightarrow> (bool \<times> string) eff" where
  "legacy_time_manual w tr manual_date manual_time =
     (if \<not> (truthy manual_date \<and> truthy manual_time) then (time_error manual_required, tr)
      else if strptime (py_str manual_date @ '' '' @ py_str manual_time) = None then
        (time_error invalid_format, tr)
      else
        (let tr1 = snd (ntp_service w tr ''stop'');
             date_string = py_str manual_date @ '' '' @ py_str manual_time @ '':00''
         in case run_command w tr1 [''date'', ''-s'', date_string] of
              ((success, out), tr2) \<Rightarrow>
                if \<not> success then (time_error (''Failed to set manual time: '' @ out), tr2)
                else
                  (let tr3 = snd (run_command w tr2 [''hwclock'', ''--systohc''])
                   in ((True, ''Manual time set successfully.''), tr3))))"

definition invalid_time_type :: "string option \<Rightarrow> string" where
  "invalid_time_type time_type =
     ''Invalid timeType: '' @ py_str time_type @ ''. Must be '' @ sq @ ''ntp'' @ sq @ '' or '' @ sq @ ''manual'' @ sq @ ''.''"

definition configure_legacy_time_ubuntu16 ::
  "world \<Rightarrow> event list \<Rightarrow> string option \<Rightarrow> string option \<Rightarrow> string option \<Rightarrow> string option
     \<Rightarrow> (bool \<times> string) eff" where
  "configure_legacy_time_ubuntu16 w tr time_type ntp_server manual_date manual_time =
     (if time_type = Some ''ntp'' then legacy_time_ntp w tr ntp_server
      else if time_type = Some ''manual'' then legacy_time_manual w tr manual_date manual_time
      else (time_error (invalid_time_type time_type), tr))"

section \<open>Request Handlers\<close>

definition no_json :: response where
  "no_json = Response 400 ''error'' ''No JSON data provided.''"

text \<open>
  The branch of \<^verbatim>\<open>apply_network_settings\<close> for every version but 16.04: build the
  document, then write and apply it. A \<^verbatim>\<open>ValueError\<close> of the builder reaches the
  handler's \<^verbatim>\<open>except\<close> clause.
\<close>

definition netplan_network_settings ::
  "world \<Rightarrow> event list \<Rightarrow> string option \<Rightarrow> string option \<Rightarrow> string option \<Rightarrow> string option
     \<Rightarrow> string option \<Rightarrow> string \<Rightarrow> response eff" where
  "netplan_network_settings w tr ip_type ip_address subnet_mask gateway dns_server interface_name =
     (case generate_netplan_yaml ip_type ip_address subnet_mask gateway dns_server interface_name of
        Inl e \<Rightarrow> (handle_exn e, tr)
      | Inr netplan_data \<Rightarrow>
          (case write_and_apply_netplan w tr netplan_data of (r, tr') \<Rightarrow> (respond r, tr')))"

definition no_interface :: response where
  "no_interface = Response 500 ''error'' ''Could not detect network interface. Please configure manually.''"

definition apply_network_settings :: "world \<Rightarrow> event list \<Rightarrow> json_body \<Rightarrow> response eff" where
  "apply_network_settings w tr body =
     (case body of
        None \<Rightarrow> (no_json, tr)
      | Some data \<Rightarrow>
          if data = [] then (no_json, tr)
          else
            (let ip_type = get_field data ''ipType'';
                 ip_address = get_field data ''ipAddress'';
                 subnet_mask = get_field data ''subnetMask'';
                 gateway = get_field data ''gateway'';
                 dns_server = get_field data ''dnsServer''
             in case get_network_interface_name w of
                  None \<Rightarrow> (no_interface, tr)
                | Some interface_name \<Rightarrow>
                    if interface_name = [] then (no_interface, tr)
                    else if get_ubuntu_version w = ''16.04'' then
                      (case configure_legacy_network_ubuntu16 w tr ip_type ip_address subnet_mask gateway
                              dns_server interface_name of
                         (r, tr') \<Rightarrow> (respond r, tr'))
                    else netplan_network_settings w tr ip_type ip_address subnet_mask gateway
                           dns_server interface_name))"

definition no_interface_dhcp :: response where
  "no_interface_dhcp = Response 500 ''error'' ''Could not detect network interface to disable DHCP.''"

text \<open>
  \<^verbatim>\<open>disable_dhcp\<close>. After each command the source only chooses between a warning and an
  information line of the log, by the outcome and its text; the log is not modelled.
\<close>

definition disable_dhcp :: "world \<Rightarrow> event list \<Rightarrow> response eff" where
  "disable_dhcp w tr =
     (case get_network_interface_name w of
        None \<Rightarrow> (no_interface_dhcp, tr)
      | Some interface_name \<Rightarrow>
          if interface_name = [] then (no_interface_dhcp, tr)
          else
            (let tr1 = snd (run_command w tr [''dhclient'', ''-r'', interface_name]);
                 tr2 = snd (run_command w tr1 [''systemctl'', ''stop'', ''NetworkManager'']);
                 tr3 = snd (run_command w tr2 [''systemctl'', ''disable'', ''NetworkManager'']);
                 tr4 = snd (run_command w tr3 [''systemctl'', ''stop'', ''isc-dhcp-client'']);
                 tr5 = snd (run_command w tr4 [''systemctl'', ''disable'', ''isc-dhcp-client'']);
                 tr6 = snd (run_command w tr5 [''pkill'', ''dhclient''])
             in (Response 200 ''success'' ''DHCP disabled successfully.'', tr6)))"

text \<open>
  The branch of \<^verbatim>\<open>apply_time_settings\<close> for every version but 16.04, which drives
  \<^verbatim>\<open>timedatectl\<close>.
\<close>

definition timedatectl_ntp :: "world \<Rightarrow> event list \<Rightarrow> response eff" where
  "timedatectl_ntp w tr =
     (case run_command w tr [''timedatectl'', ''set-ntp'', ''false''] of
        ((success_disable, error_disable), tr1) \<Rightarrow>
          if \<not> success_disable then (Response 500 ''error'' (''Failed to disable NTP: '' @ error_disable), tr1)
          else
            (case run_command w tr1 [''timedatectl'', ''set-ntp'', ''true''] of
               ((success_enable, error_enable), tr2) \<Rightarrow>
                 if \<not> success_enable then (Response 500 ''error'' (''Failed to enable NTP: '' @ error_enable), tr2)
                 else (respond (True, ''NTP synchronization enabled successfully.''), tr2)))"

definition timedatectl_manual ::
  "world \<Rightarrow> event list \<Rightarrow> string option \<Rightarrow> string option \<Rightarrow> response eff" where
  "timedatectl_manual w tr manual_date manual_time =
     (if \<not> (truthy manual_date \<and> truthy manual_time) then (Response 400 ''error'' manual_required, tr)
      else if strptime (py_str manual_date @ '' '' @ py_str manual_time) = None then
        (Response 400 ''error'' invalid_format, tr)
      else
        (case run_command w tr [''timedatectl'', ''set-ntp'', ''false''] of
           ((success_disable, error_disable), tr1) \<Rightarrow>
             if \<not> success_disable then (Response 500 ''error'' (''Failed to disable NTP: '' @ error_disable), tr1)
             else
               (case run_command w tr1
                       [''timedatectl'', ''set-time'', py_str manual_date @ '' '' @ py_str manual_time @ '':00''] of
                  ((success_set_time, error_set_time), tr2) \<Rightarrow>
                    if success_set_time then (respond (True, ''Manual time set successfully.''), tr2)
                    else (respond (False, ''Failed to set manual time: '' @ error_set_time), tr2))))"

definition timedatectl_time_settings ::
  "world \<Rightarrow> event list \<Rightarrow> string option \<Rightarrow> string option \<Rightarrow> string option \<Rightarrow> response eff" where
  "timedatectl_time_settings w tr time_type manual_date manual_time =
     (if time_type = Some ''ntp'' then timedatectl_ntp w tr
      else if time_type = Some ''manual'' then timedatectl_manual w tr manual_date manual_time
      else (Response 400 ''error''
              (''Invalid timeType. Must be '' @ sq @ ''ntp'' @ sq @ '' or '' @ sq @ ''manual'' @ sq @ ''.''), tr))"

definition apply_time_settings :: "world \<Rightarrow> event list \<Rightarrow> json_body \<Rightarrow> response eff" where
  "apply_time_settings w tr body =
     (case body of
        None \<Rightarrow> (no_json, tr)
      | Some data \<Rightarrow>
          if data = [] then (no_json, tr)
          else
            (let time_type = get_field data ''timeType'';
                 ntp_server = get_field data ''ntpServer'';
                 manual_date = get_field data ''manualDate'';
                 manual_time = get_field data ''manualTime''
             in if get_ubuntu_version w = ''16.04'' then
                  (case configure_legacy_time_ubuntu16 w tr time_type ntp_server manual_date manual_time of
                     (r, tr') \<Rightarrow> (respond r, tr'))
                else timedatectl_time_settings w tr time_type manual_date manual_time))"

text \<open>The commands and the file writes among some events.\<close>

fun commands :: "event list \<Rightarrow> string list list" where
  "commands [] = []"
| "commands (Cmd a sp ok out # es) = a # commands es"
| "commands (e # es) = commands es"

text \<open>
  The event that a call of \<^verbatim>\<open>run_command\<close> records. It carries the arguments and the
  pair the call returns, so \<open>ev_ok (ev w tr c)\<close> is whether the command \<open>c\<close>, run after
  the events \<open>tr\<close>, succeeds on the host \<open>w\<close>.
\<close>

definition ev :: "world \<Rightarrow> event list \<Rightarrow> string list \<Rightarrow> event" where
  "ev w tr c = last (snd (run_command w tr c))"

text \<open>
  The content of the files after some events, on a host where a \<^verbatim>\<open>cp\<close> that was
  spawned and exited with code 0 has copied its source over its destination, where a
  write that raised has left the file as it was, and where the other commands of the
  service leave the files in question alone.
\<close>

type_synonym files = "string \<Rightarrow> content option"

fun effect :: "files \<Rightarrow> event \<Rightarrow> files" where
  "effect fs (Cmd a sp ok out) =
     (case a of
        [c, src, dst] \<Rightarrow> if c = ''cp'' \<and> sp \<and> ok then fs(dst := fs src) else fs
      | _ \<Rightarrow> fs)"
| "effect fs (FileWrite p c ok) = (if ok then fs(p \<mapsto> c) else fs)"
| "effect fs (MakeDirs p ok) = fs"

definition files_after :: "files \<Rightarrow> event list \<Rightarrow> files" where
  "files_after fs evs = foldl effect fs evs"

section \<open>Example hosts and requests\<close>

text \<open>A host on which every process exits with the given code and prints nothing.\<close>

definition host :: "bool \<Rightarrow> int \<Rightarrow> string option \<Rightarrow> world" where
  "host mock rc release =
     \<lparr>IN_DOCKER_TEST_MODE = mock,
      subprocess_run = (\<lambda>tr c. Exited rc [] []),
      io_error = (\<lambda>tr p. None),
      os_release = release,
      sys_class_net = Some [(''lo'', True), (''eth0'', True)]\<rparr>"

text \<open>
  A host on which every process exits with code 0, except the commands listed in \<open>bad\<close>,
  which exit with code 1 and the text \<^verbatim>\<open>failed\<close> on stderr.
\<close>

definition host_except :: "bool \<Rightarrow> string option \<Rightarrow> string list list \<Rightarrow> world" where
  "host_except mock release bad =
     \<lparr>IN_DOCKER_TEST_MODE = mock,
      subprocess_run = (\<lambda>tr c. if c \<in> set bad then Exited 1 [] ''failed'' else Exited 0 [] []),
      io_error = (\<lambda>tr p. None),
      os_release = release,
      sys_class_net = Some [(''lo'', True), (''eth0'', True)]\<rparr>"

text \<open>Files of which only the interface file exists, with some earlier content.\<close>

definition old_files :: files where
  "old_files = (\<lambda>p. if p = ''/etc/network/interfaces'' then Some (Text ''auto lo'') else None)"

definition xenial :: "string option" where
  "xenial = Some (''NAME=Ubuntu'' @ [CHR 0x0A] @ version_id ''16.04'' @ [CHR 0x0A])"

definition noble :: "string option" where
  "noble = Some (''NAME=Ubuntu'' @ [CHR 0x0A] @ version_id ''24.04'' @ [CHR 0x0A])"

section \<open>Properties of the Command Executor\<close>

lemma run_command_shape:
  "\<exists>sp ok out. run_command w tr c = ((ok, out), tr @ [Cmd (remove_sudo c) sp ok out])"
  by (cases "remove_sudo c") (auto simp: run_command_def Let_def)

lemma remove_sudo_plain: "name \<noteq> ''sudo'' \<Longrightarrow> remove_sudo (name # args) = name # args"
  by (simp add: remove_sudo_def)

lemma join_dhclient: "\<exists>rest. join '' '' (''dhclient'' # args) = ''dhclient'' @ rest"
  by (cases args) simp_all

lemma mock_output_dhclient: "mock_output (''dhclient'' # args) \<noteq> ''Mocked: DHCP release successful.''"
proof -
  obtain rest where "join '' '' (''dhclient'' # args) = ''dhclient'' @ rest"
    using join_dhclient by blast
  then show ?thesis by (simp add: mock_output_def)
qed

text \<open>
  C8. In mock mode a command whose name (after the removal of a leading \<^verbatim>\<open>sudo\<close>) is
  one of timedatectl, netplan, dhclient, systemctl, pkill returns success and spawns no
  process; for \<^verbatim>\<open>dhclient\<close> with \<^verbatim>\<open>-r\<close> the message is the lease-released text, which
  is not the generic mock text. Any other command is spawned, and the call returns what
  the process gave.
\<close>

theorem run_command_mock_mode:
  assumes "IN_DOCKER_TEST_MODE w" and "remove_sudo command_list = name # args"
  shows "(name \<in> {''timedatectl'', ''netplan'', ''dhclient'', ''systemctl'', ''pkill''} \<longrightarrow>
            (\<exists>out. run_command w tr command_list = ((True, out), tr @ [Cmd (name # args) False True out]) \<and>
               (if name = ''dhclient'' \<and> ''-r'' \<in> set args
                then out = ''Mocked: DHCP release successful.'' \<and> out \<noteq> mock_output (name # args)
                else out = mock_output (name # args)))) \<and>
         (name \<notin> {''timedatectl'', ''netplan'', ''dhclient'', ''systemctl'', ''pkill''} \<longrightarrow>
            (\<exists>ok out. (ok, out) = process_outcome name (subprocess_run w tr (name # args)) \<and>
               run_command w tr command_list = ((ok, out), tr @ [Cmd (name # args) True ok out])))"
proof (intro conjI impI)
  assume m: "name \<in> {''timedatectl'', ''netplan'', ''dhclient'', ''systemctl'', ''pkill''}"
  then have mm: "name \<in> set mockable" by (simp add: mockable_def)
  show "\<exists>out. run_command w tr command_list = ((True, out), tr @ [Cmd (name # args) False True out]) \<and>
               (if name = ''dhclient'' \<and> ''-r'' \<in> set args
                then out = ''Mocked: DHCP release successful.'' \<and> out \<noteq> mock_output (name # args)
                else out = mock_output (name # args))"
  proof (cases "name = ''dhclient'' \<and> ''-r'' \<in> set args")
    case True
    then have "mock_output (name # args) \<noteq> ''Mocked: DHCP release successful.''"
      using mock_output_dhclient by simp
    with True assms mm show ?thesis
      by (auto simp: run_command_def Let_def)
  next
    case False
    with assms mm show ?thesis
      by (auto simp: run_command_def Let_def)
  qed
next
  assume "name \<notin> {''timedatectl'', ''netplan'', ''dhclient'', ''systemctl'', ''pkill''}"
  then have "name \<notin> set mockable" by (simp add: mockable_def)
  with assms show "\<exists>ok out. (ok, out) = process_outcome name (subprocess_run w tr (name # args)) \<and>
               run_command w tr command_list = ((ok, out), tr @ [Cmd (name # args) True ok out])"
    by (cases "process_outcome name (subprocess_run w tr (name # args))")
       (simp add: run_command_def Let_def)
qed

theorem run_command_mock_mode_witness:
  "IN_DOCKER_TEST_MODE (host True 1 None) \<and>
   remove_sudo [''dhclient'', ''-r'', ''eth0''] = [''dhclient'', ''-r'', ''eth0''] \<and>
   run_command (host True 1 None) [] [''dhclient'', ''-r'', ''eth0'']
     = ((True, ''Mocked: DHCP release successful.''),
        [Cmd [''dhclient'', ''-r'', ''eth0''] False True ''Mocked: DHCP release successful.''])"
proof -
  have h1: "IN_DOCKER_TEST_MODE (host True 1 None)" by (simp add: host_def)
  have h2: "remove_sudo [''dhclient'', ''-r'', ''eth0''] = ''dhclient'' # [''-r'', ''eth0'']"
    by (simp add: remove_sudo_def)
  show ?thesis
    using run_command_mock_mode [OF h1 h2, of "[]"] h1 h2 by auto
qed

lemma first_wired_find: "first_wired xs = List.find is_wired xs"
  by (induction xs) simp_all

lemma first_wired_None: "first_wired xs = None \<longleftrightarrow> (\<forall>x \<in> set xs. \<not> is_wired x)"
  by (induction xs) simp_all

lemma first_wired_Some:
  "first_wired xs = Some i \<longleftrightarrow> (\<exists>k < length xs. xs ! k = i \<and> is_wired i \<and> (\<forall>j < k. \<not> is_wired (xs ! j)))"
  by (auto simp: first_wired_find find_Some_iff)

text \<open>
  C9. Among the directory entries of the scan, in their order, interface discovery
  returns the first whose name starts with eth or enp when there is one, otherwise the
  first entry; with no entry, or when the scan fails, it returns none. Then (also for
  an empty name) the network handlers answer 500 and run no command and write no file.
  For \<^verbatim>\<open>apply_network_settings\<close> this is for a request with a non-empty JSON body, the
  check for which comes first.
\<close>

theorem interface_discovery:
  "(\<forall>entries. sys_class_net w = Some entries \<longrightarrow>
      (let interfaces = map fst (filter snd entries) in
       ((\<exists>x \<in> set interfaces. is_wired x) \<longrightarrow>
          (\<exists>k < length interfaces. get_network_interface_name w = Some (interfaces ! k) \<and>
              is_wired (interfaces ! k) \<and> (\<forall>j < k. \<not> is_wired (interfaces ! j)))) \<and>
       ((\<forall>x \<in> set interfaces. \<not> is_wired x) \<and> interfaces \<noteq> [] \<longrightarrow>
          get_network_interface_name w = Some (hd interfaces)) \<and>
       (interfaces = [] \<longrightarrow> get_network_interface_name w = None))) \<and>
   (sys_class_net w = None \<longrightarrow> get_network_interface_name w = None) \<and>
   (get_network_interface_name w = None \<or> get_network_interface_name w = Some [] \<longrightarrow>
      disable_dhcp w tr = (no_interface_dhcp, tr) \<and> code no_interface_dhcp = 500 \<and>
      (\<forall>data. data \<noteq> [] \<longrightarrow>
         apply_network_settings w tr (Some data) = (no_interface, tr) \<and> code no_interface = 500))"
proof (intro conjI allI impI)
  fix entries
  assume e: "sys_class_net w = Some entries"
  show "let interfaces = map fst (filter snd entries) in
       ((\<exists>x \<in> set interfaces. is_wired x) \<longrightarrow>
          (\<exists>k < length interfaces. get_network_interface_name w = Some (interfaces ! k) \<and>
              is_wired (interfaces ! k) \<and> (\<forall>j < k. \<not> is_wired (interfaces ! j)))) \<and>
       ((\<forall>x \<in> set interfaces. \<not> is_wired x) \<and> interfaces \<noteq> [] \<longrightarrow>
          get_network_interface_name w = Some (hd interfaces)) \<and>
       (interfaces = [] \<longrightarrow> get_network_interface_name w = None)"
    unfolding Let_def
  proof (intro conjI impI)
    let ?is = "map fst (filter snd entries)"
    assume "\<exists>x \<in> set ?is. is_wired x"
    then have "first_wired ?is \<noteq> None" by (simp only: first_wired_None) blast
    then obtain i where i: "first_wired ?is = Some i" by blast
    then obtain k where k: "k < length ?is" "?is ! k = i" "is_wired i" "\<forall>j < k. \<not> is_wired (?is ! j)"
      unfolding first_wired_Some by blast
    have "get_network_interface_name w = Some i"
      using e i by (simp add: get_network_interface_name_def)
    with k show "\<exists>k < length ?is. get_network_interface_name w = Some (?is ! k) \<and>
              is_wired (?is ! k) \<and> (\<forall>j < k. \<not> is_wired (?is ! j))"
      by blast
  next
    let ?is = "map fst (filter snd entries)"
    assume a: "(\<forall>x \<in> set ?is. \<not> is_wired x) \<and> ?is \<noteq> []"
    then have "first_wired ?is = None" by (simp only: first_wired_None) blast
    with a e show "get_network_interface_name w = Some (hd ?is)"
      by (cases ?is) (simp_all add: get_network_interface_name_def)
  next
    let ?is = "map fst (filter snd entries)"
    assume "?is = []"
    with e show "get_network_interface_name w = None"
      by (simp add: get_network_interface_name_def)
  qed
next
  assume "sys_class_net w = None"
  then show "get_network_interface_name w = None"
    by (simp add: get_network_interface_name_def)
next
  assume "get_network_interface_name w = None \<or> get_network_interface_name w = Some []"
  then show "disable_dhcp w tr = (no_interface_dhcp, tr)"
    by (auto simp: disable_dhcp_def)
next
  show "code no_interface_dhcp = 500" by (simp add: no_interface_dhcp_def)
next
  fix data :: "(string \<times> string option) list"
  assume "get_network_interface_name w = None \<or> get_network_interface_name w = Some []" "data \<noteq> []"
  then show "apply_network_settings w tr (Some data) = (no_interface, tr)"
    by (auto simp: apply_network_settings_def Let_def)
next
  show "code no_interface = 500" by (simp add: no_interface_def)
qed

theorem interface_discovery_witness:
  "get_network_interface_name (host False 0 None) = Some ''eth0'' \<and>
   get_network_interface_name ((host False 0 None)\<lparr>sys_class_net := Some [(''wlan0'', True), (''x'', False)]\<rparr>) = Some ''wlan0'' \<and>
   disable_dhcp ((host False 0 None)\<lparr>sys_class_net := None\<rparr>) [] = (no_interface_dhcp, []) \<and>
   apply_network_settings ((host False 0 None)\<lparr>sys_class_net := Some []\<rparr>) [] (Some [(''ipType'', Some ''dynamic'')])
     = (no_interface, [])"
proof -
  have a: "get_network_interface_name (host False 0 None) = Some ''eth0''"
  proof -
    let ?is = "[''lo'', ''eth0'']"
    have e: "sys_class_net (host False 0 None) = Some [(''lo'', True), (''eth0'', True)]"
      by (simp add: host_def)
    have lo: "\<not> is_wired ''lo''" and eth: "is_wired ''eth0''"
      by (simp_all add: is_wired_def startswith_def)
    from interface_discovery [of "host False 0 None" "[]"] e eth
    obtain k where k: "k < length ?is" "get_network_interface_name (host False 0 None) = Some (?is ! k)"
      "is_wired (?is ! k)"
      by (auto simp: Let_def)
    from k(1) have "k = 0 \<or> k = 1" by auto
    with k(3) lo have "k = 1" by auto
    with k(2) show ?thesis by simp
  qed
  have b: "get_network_interface_name ((host False 0 None)\<lparr>sys_class_net := Some [(''wlan0'', True), (''x'', False)]\<rparr>) = Some ''wlan0''"
    using interface_discovery [of "(host False 0 None)\<lparr>sys_class_net := Some [(''wlan0'', True), (''x'', False)]\<rparr>" "[]"]
    by (auto simp: host_def is_wired_def startswith_def)
  have c: "disable_dhcp ((host False 0 None)\<lparr>sys_class_net := None\<rparr>) [] = (no_interface_dhcp, [])"
    using interface_discovery [of "(host False 0 None)\<lparr>sys_class_net := None\<rparr>" "[]"]
    by (auto simp: host_def)
  have d: "apply_network_settings ((host False 0 None)\<lparr>sys_class_net := Some []\<rparr>) [] (Some [(''ipType'', Some ''dynamic'')])
     = (no_interface, [])"
    using interface_discovery [of "(host False 0 None)\<lparr>sys_class_net := Some []\<rparr>" "[]"]
    by (auto simp: host_def)
  from a b c d show ?thesis by blast
qed

lemma cidr_example: "subnet_mask_to_cidr ''255.255.255.0'' = Some 24"
  by code_simp

lemma str_nat_24: "str_nat 24 = ''24''"
  by code_simp

lemma strptime_example: "strptime ''2024-13-01 10:00'' = None"
  by code_simp

lemma strptime_example_ok: "strptime ''2024-12-01 10:00'' = Some (2024, 12, 1, 10, 0)"
  by code_simp

lemma ethernet_netplan_config: "ethernet (netplan_config i s) i = Some (YDict s)"
  by (simp add: ethernet_def netplan_config_def yget_def)

text \<open>
  C1. For a static intent with non-empty address, mask and gateway whose mask converts
  to the prefix length \<open>cidr\<close>, the builder returns a document whose interface carries
  DHCP off, exactly one address, the supplied address joined by a slash with \<open>cidr\<close> in
  decimal, and exactly one route, the default route via the supplied gateway. For the
  address 192.168.1.50, the mask 255.255.255.0 and the gateway 192.168.1.1 the
  addresses are exactly 192.168.1.50/24 and the default route is via 192.168.1.1.
\<close>

theorem netplan_static_document:
  "(ip_address \<noteq> [] \<and> subnet_mask \<noteq> [] \<and> gateway \<noteq> [] \<and> interface_name \<noteq> [] \<and>
    subnet_mask_to_cidr subnet_mask = Some cidr \<longrightarrow>
      (\<exists>doc settings.
         generate_netplan_yaml (Some ''static'') (Some ip_address) (Some subnet_mask) (Some gateway)
           dns_server interface_name = Inr doc \<and>
         ethernet doc interface_name = Some settings \<and>
         yget ''dhcp4'' settings = Some (YBool False) \<and>
         yget ''addresses'' settings = Some (YList [YStr (ip_address @ ''/'' @ str_nat cidr)]) \<and>
         yget ''routes'' settings = Some (YList [YDict [(''to'', YStr ''default''), (''via'', YStr gateway)]]))) \<and>
   (interface_name \<noteq> [] \<longrightarrow>
      (\<exists>doc settings.
         generate_netplan_yaml (Some ''static'') (Some ''192.168.1.50'') (Some ''255.255.255.0'')
           (Some ''192.168.1.1'') dns_server interface_name = Inr doc \<and>
         ethernet doc interface_name = Some settings \<and>
         yget ''addresses'' settings = Some (YList [YStr ''192.168.1.50/24'']) \<and>
         yget ''routes'' settings = Some (YList [YDict [(''to'', YStr ''default''), (''via'', YStr ''192.168.1.1'')]])))"
proof -
  have gen: "\<exists>doc settings.
         generate_netplan_yaml (Some ''static'') (Some a) (Some m) (Some g) dns_server i = Inr doc \<and>
         ethernet doc i = Some settings \<and>
         yget ''dhcp4'' settings = Some (YBool False) \<and>
         yget ''addresses'' settings = Some (YList [YStr (a @ ''/'' @ str_nat c)]) \<and>
         yget ''routes'' settings = Some (YList [YDict [(''to'', YStr ''default''), (''via'', YStr g)]])"
    if "a \<noteq> []" "m \<noteq> []" "g \<noteq> []" "i \<noteq> []" "subnet_mask_to_cidr m = Some c" for a m g i c
    using that
    by (simp add: generate_netplan_yaml_def truthy_def py_str_def ethernet_netplan_config yget_def)
  have inst: "\<exists>doc settings.
         generate_netplan_yaml (Some ''static'') (Some ''192.168.1.50'') (Some ''255.255.255.0'')
           (Some ''192.168.1.1'') dns_server interface_name = Inr doc \<and>
         ethernet doc interface_name = Some settings \<and>
         yget ''addresses'' settings = Some (YList [YStr ''192.168.1.50/24'']) \<and>
         yget ''routes'' settings = Some (YList [YDict [(''to'', YStr ''default''), (''via'', YStr ''192.168.1.1'')]])"
    if "interface_name \<noteq> []"
    using gen [of "''192.168.1.50''" "''255.255.255.0''" "''192.168.1.1''" interface_name 24] that
    by (auto simp: cidr_example str_nat_24)
  from gen inst show ?thesis by blast
qed

theorem netplan_static_document_witness:
  "subnet_mask_to_cidr ''255.255.0.0'' = Some 16 \<and>
   (\<exists>doc settings.
      generate_netplan_yaml (Some ''static'') (Some ''10.0.0.7'') (Some ''255.255.0.0'') (Some ''10.0.0.1'')
        None ''eth0'' = Inr doc \<and>
      ethernet doc ''eth0'' = Some settings \<and>
      yget ''addresses'' settings = Some (YList [YStr ''10.0.0.7/16'']) \<and>
      yget ''routes'' settings = Some (YList [YDict [(''to'', YStr ''default''), (''via'', YStr ''10.0.0.1'')]]))"
proof -
  have c: "subnet_mask_to_cidr ''255.255.0.0'' = Some 16" by code_simp
  have s: "str_nat 16 = ''16''" by code_simp
  show ?thesis
    using netplan_static_document [of "''10.0.0.7''" "''255.255.0.0''" "''10.0.0.1''" "''eth0''" 16 None] c s
    by auto
qed

text \<open>
  C7. The version found is 16.04, the legacy dialect, exactly when the release text can
  be read and contains \<^verbatim>\<open>VERSION_ID="16.04"\<close>. When the text cannot be read or does not
  contain it, both handlers take the modern branch: Netplan for the network, timedatectl
  for the time. When it does, they call the legacy configurators.
\<close>

theorem environment_detector:
  "(get_ubuntu_version w = ''16.04'' \<longleftrightarrow>
      (\<exists>content. os_release w = Some content \<and> isin (version_id ''16.04'') content)) \<and>
   (get_ubuntu_version w \<noteq> ''16.04'' \<and> data \<noteq> [] \<longrightarrow>
      apply_time_settings w tr (Some data) =
        timedatectl_time_settings w tr (get_field data ''timeType'') (get_field data ''manualDate'')
          (get_field data ''manualTime'') \<and>
      (\<forall>interface_name. get_network_interface_name w = Some interface_name \<and> interface_name \<noteq> [] \<longrightarrow>
         apply_network_settings w tr (Some data) =
           netplan_network_settings w tr (get_field data ''ipType'') (get_field data ''ipAddress'')
             (get_field data ''subnetMask'') (get_field data ''gateway'') (get_field data ''dnsServer'')
             interface_name)) \<and>
   (get_ubuntu_version w = ''16.04'' \<and> data \<noteq> [] \<longrightarrow>
      apply_time_settings w tr (Some data) =
        (case configure_legacy_time_ubuntu16 w tr (get_field data ''timeType'') (get_field data ''ntpServer'')
                (get_field data ''manualDate'') (get_field data ''manualTime'') of
           (r, tr') \<Rightarrow> (respond r, tr')) \<and>
      (\<forall>interface_name. get_network_interface_name w = Some interface_name \<and> interface_name \<noteq> [] \<longrightarrow>
         apply_network_settings w tr (Some data) =
           (case configure_legacy_network_ubuntu16 w tr (get_field data ''ipType'') (get_field data ''ipAddress'')
                   (get_field data ''subnetMask'') (get_field data ''gateway'') (get_field data ''dnsServer'')
                   interface_name of
              (r, tr') \<Rightarrow> (respond r, tr'))))"
proof (intro conjI)
  show "get_ubuntu_version w = ''16.04'' \<longleftrightarrow>
      (\<exists>content. os_release w = Some content \<and> isin (version_id ''16.04'') content)"
    by (cases "os_release w") (auto simp: get_ubuntu_version_def)
qed (auto simp: apply_time_settings_def apply_network_settings_def Let_def)

theorem environment_detector_witness:
  "get_ubuntu_version (host False 0 None) \<noteq> ''16.04'' \<and>
   get_ubuntu_version (host False 0 noble) \<noteq> ''16.04'' \<and>
   get_ubuntu_version (host False 0 xenial) = ''16.04'' \<and>
   apply_time_settings (host False 0 noble) [] (Some [(''timeType'', Some ''ntp'')]) =
     timedatectl_time_settings (host False 0 noble) [] (Some ''ntp'') None None"
proof -
  have a: "os_release (host False 0 None) = None" by (simp add: host_def)
  have b: "\<not> isin (version_id ''16.04'') (the noble)" by (simp add: noble_def version_id_def dq_def)
  have c: "isin (version_id ''16.04'') (the xenial)" by (simp add: xenial_def version_id_def dq_def)
  have ob: "os_release (host False 0 noble) = noble" and oc: "os_release (host False 0 xenial) = xenial"
    by (simp_all add: host_def)
  have 1: "get_ubuntu_version (host False 0 None) \<noteq> ''16.04''"
    using environment_detector [of "host False 0 None"] a by simp
  have 2: "get_ubuntu_version (host False 0 noble) \<noteq> ''16.04''"
    using environment_detector [of "host False 0 noble"] b ob by (simp add: noble_def)
  have 3: "get_ubuntu_version (host False 0 xenial) = ''16.04''"
    using environment_detector [of "host False 0 xenial"] c oc by (simp add: xenial_def)
  have 4: "apply_time_settings (host False 0 noble) [] (Some [(''timeType'', Some ''ntp'')]) =
     timedatectl_time_settings (host False 0 noble) [] (Some ''ntp'') None None"
    using environment_detector [of "host False 0 noble" "[(''timeType'', Some ''ntp'')]" "[]"] 2
    by (simp add: get_field_def)
  from 1 2 3 4 show ?thesis by blast
qed

lemma run_command_snd:
  "\<exists>e. snd (run_command w tr c) = tr @ [e] \<and> commands [e] = [remove_sudo c]"
  using run_command_shape [of w tr c] by auto

lemma commands_append: "commands (xs @ ys) = commands xs @ commands ys"
  by (induction xs rule: commands.induct) simp_all

lemma host_interface: "get_network_interface_name (host m rc rel) = Some ''eth0''"
  by (simp add: get_network_interface_name_def host_def is_wired_def startswith_def)

text \<open>
  C2. Once interface detection has given a name, the DHCP teardown answers 200 with
  success on every host, so whatever each of its commands returns; and the six commands
  are all run, in their order: lease release, stop and disable of NetworkManager, stop
  and disable of isc-dhcp-client, and the kill of dhclient processes.
\<close>

theorem disable_dhcp_always_succeeds:
  "get_network_interface_name w = Some interface_name \<and> interface_name \<noteq> [] \<longrightarrow>
     fst (disable_dhcp w tr) = Response 200 ''success'' ''DHCP disabled successfully.'' \<and>
     (\<exists>evs. snd (disable_dhcp w tr) = tr @ evs \<and> length evs = 6 \<and>
        commands evs =
          [[''dhclient'', ''-r'', interface_name],
           [''systemctl'', ''stop'', ''NetworkManager''],
           [''systemctl'', ''disable'', ''NetworkManager''],
           [''systemctl'', ''stop'', ''isc-dhcp-client''],
           [''systemctl'', ''disable'', ''isc-dhcp-client''],
           [''pkill'', ''dhclient'']])"
proof (intro impI, elim conjE)
  assume i: "get_network_interface_name w = Some interface_name" "interface_name \<noteq> []"
  obtain e1 where e1: "snd (run_command w tr [''dhclient'', ''-r'', interface_name]) = tr @ [e1]"
      "commands [e1] = [[''dhclient'', ''-r'', interface_name]]"
    using run_command_snd [of w tr "[''dhclient'', ''-r'', interface_name]"]
    by (auto simp: remove_sudo_def)
  obtain e2 where e2: "snd (run_command w (tr @ [e1]) [''systemctl'', ''stop'', ''NetworkManager'']) = tr @ [e1, e2]"
      "commands [e2] = [[''systemctl'', ''stop'', ''NetworkManager'']]"
    using run_command_snd [of w "tr @ [e1]" "[''systemctl'', ''stop'', ''NetworkManager'']"]
    by (auto simp: remove_sudo_def)
  obtain e3 where e3: "snd (run_command w (tr @ [e1, e2]) [''systemctl'', ''disable'', ''NetworkManager'']) = tr @ [e1, e2, e3]"
      "commands [e3] = [[''systemctl'', ''disable'', ''NetworkManager'']]"
    using run_command_snd [of w "tr @ [e1, e2]" "[''systemctl'', ''disable'', ''NetworkManager'']"]
    by (auto simp: remove_sudo_def)
  obtain e4 where e4: "snd (run_command w (tr @ [e1, e2, e3]) [''systemctl'', ''stop'', ''isc-dhcp-client'']) = tr @ [e1, e2, e3, e4]"
      "commands [e4] = [[''systemctl'', ''stop'', ''isc-dhcp-client'']]"
    using run_command_snd [of w "tr @ [e1, e2, e3]" "[''systemctl'', ''stop'', ''isc-dhcp-client'']"]
    by (auto simp: remove_sudo_def)
  obtain e5 where e5: "snd (run_command w (tr @ [e1, e2, e3, e4]) [''systemctl'', ''disable'', ''isc-dhcp-client'']) = tr @ [e1, e2, e3, e4, e5]"
      "commands [e5] = [[''systemctl'', ''disable'', ''isc-dhcp-client'']]"
    using run_command_snd [of w "tr @ [e1, e2, e3, e4]" "[''systemctl'', ''disable'', ''isc-dhcp-client'']"]
    by (auto simp: remove_sudo_def)
  obtain e6 where e6: "snd (run_command w (tr @ [e1, e2, e3, e4, e5]) [''pkill'', ''dhclient'']) = tr @ [e1, e2, e3, e4, e5, e6]"
      "commands [e6] = [[''pkill'', ''dhclient'']]"
    using run_command_snd [of w "tr @ [e1, e2, e3, e4, e5]" "[''pkill'', ''dhclient'']"]
    by (auto simp: remove_sudo_def)
  have "[e1, e2, e3, e4, e5, e6] = [e1] @ [e2] @ [e3] @ [e4] @ [e5] @ [e6]" by simp
  then have cs: "commands [e1, e2, e3, e4, e5, e6] =
      commands [e1] @ commands [e2] @ commands [e3] @ commands [e4] @ commands [e5] @ commands [e6]"
    by (simp only: commands_append)
  have d: "disable_dhcp w tr =
      (Response 200 ''success'' ''DHCP disabled successfully.'', tr @ [e1, e2, e3, e4, e5, e6])"
    using i by (simp add: disable_dhcp_def Let_def e1(1) e2(1) e3(1) e4(1) e5(1) e6(1))
  have "snd (disable_dhcp w tr) = tr @ [e1, e2, e3, e4, e5, e6] \<and> length [e1, e2, e3, e4, e5, e6] = 6 \<and>
        commands [e1, e2, e3, e4, e5, e6] =
          [[''dhclient'', ''-r'', interface_name],
           [''systemctl'', ''stop'', ''NetworkManager''],
           [''systemctl'', ''disable'', ''NetworkManager''],
           [''systemctl'', ''stop'', ''isc-dhcp-client''],
           [''systemctl'', ''disable'', ''isc-dhcp-client''],
           [''pkill'', ''dhclient'']]"
    by (simp only: cs e1(2) e2(2) e3(2) e4(2) e5(2) e6(2) d) simp
  then show "fst (disable_dhcp w tr) = Response 200 ''success'' ''DHCP disabled successfully.'' \<and>
     (\<exists>evs. snd (disable_dhcp w tr) = tr @ evs \<and> length evs = 6 \<and>
        commands evs =
          [[''dhclient'', ''-r'', interface_name],
           [''systemctl'', ''stop'', ''NetworkManager''],
           [''systemctl'', ''disable'', ''NetworkManager''],
           [''systemctl'', ''stop'', ''isc-dhcp-client''],
           [''systemctl'', ''disable'', ''isc-dhcp-client''],
           [''pkill'', ''dhclient'']])"
    using d by (simp only: fst_conv) blast
qed

text \<open>On a host where every process exits with code 1, so that each of the six steps fails.\<close>

theorem disable_dhcp_always_succeeds_witness:
  "get_network_interface_name (host False 1 None) = Some ''eth0'' \<and> ''eth0'' \<noteq> [] \<and>
   fst (run_command (host False 1 None) [] [''dhclient'', ''-r'', ''eth0'']) = (False, ''Command execution failed: '') \<and>
   fst (disable_dhcp (host False 1 None) []) = Response 200 ''success'' ''DHCP disabled successfully.''"
proof -
  have f: "fst (run_command (host False 1 None) [] [''dhclient'', ''-r'', ''eth0'']) = (False, ''Command execution failed: '')"
    by (simp add: run_command_def remove_sudo_def host_def process_outcome_def called_process_error_def
          strip_def lower_def Let_def)
  show ?thesis
    using disable_dhcp_always_succeeds [of "host False 1 None" "''eth0''" "[]"] host_interface [of False 1 None] f
    by simp
qed

lemma failed_outcome:
  "process_outcome name (Exited 1 [] ''failed'') = (False, ''Command execution failed: failed'')"
  by (simp add: process_outcome_def called_process_error_def strip_def lower_def lower_char_def
        is_space_def Let_def)

lemma ok_outcome: "process_outcome name (Exited 0 [] []) = (True, [])"
  by (simp add: process_outcome_def strip_def)

lemma noble_version: "get_ubuntu_version (host_except m noble bad) = ''modern''"
  by (simp add: get_ubuntu_version_def host_except_def noble_def version_id_def dq_def)

lemma xenial_version: "get_ubuntu_version (host_except m xenial bad) = ''16.04''"
  by (simp add: get_ubuntu_version_def host_except_def xenial_def version_id_def dq_def)

text \<open>
  C10. In the modern dialect, for a manual request with a valid date and time, the
  command that disables NTP synchronisation is the first one run. If it fails the answer
  is 500 and nothing else is run. Otherwise the set-time command is the second and last
  one: when it fails the answer is 500 and no further command follows, so nothing turns
  NTP synchronisation on again.
\<close>

theorem manual_time_not_atomic:
  "get_ubuntu_version w \<noteq> ''16.04'' \<and> data \<noteq> [] \<and> get_field data ''timeType'' = Some ''manual'' \<and>
   get_field data ''manualDate'' = Some d \<and> get_field data ''manualTime'' = Some t \<and>
   d \<noteq> [] \<and> t \<noteq> [] \<and> strptime (d @ '' '' @ t) \<noteq> None \<longrightarrow>
   (\<exists>sp1 ok1 out1.
      (\<not> ok1 \<longrightarrow>
         apply_time_settings w tr (Some data) =
           (Response 500 ''error'' (''Failed to disable NTP: '' @ out1),
            tr @ [Cmd [''timedatectl'', ''set-ntp'', ''false''] sp1 ok1 out1])) \<and>
      (ok1 \<longrightarrow>
         (\<exists>sp2 ok2 out2.
            snd (apply_time_settings w tr (Some data)) =
              tr @ [Cmd [''timedatectl'', ''set-ntp'', ''false''] sp1 ok1 out1,
                    Cmd [''timedatectl'', ''set-time'', d @ '' '' @ t @ '':00''] sp2 ok2 out2] \<and>
            fst (apply_time_settings w tr (Some data)) =
              (if ok2 then Response 200 ''success'' ''Manual time set successfully.''
               else Response 500 ''error'' (''Failed to set manual time: '' @ out2)))))"
proof (intro impI, elim conjE)
  assume h: "get_ubuntu_version w \<noteq> ''16.04''" "data \<noteq> []" "get_field data ''timeType'' = Some ''manual''"
    "get_field data ''manualDate'' = Some d" "get_field data ''manualTime'' = Some t"
    "d \<noteq> []" "t \<noteq> []" "strptime (d @ '' '' @ t) \<noteq> None"
  let ?c1 = "[''timedatectl'', ''set-ntp'', ''false'']"
  let ?c2 = "[''timedatectl'', ''set-time'', d @ '' '' @ t @ '':00'']"
  obtain sp1 ok1 out1 where r1: "run_command w tr ?c1 = ((ok1, out1), tr @ [Cmd ?c1 sp1 ok1 out1])"
    using run_command_shape [of w tr ?c1] by (auto simp: remove_sudo_def)
  obtain sp2 ok2 out2 where r2: "run_command w (tr @ [Cmd ?c1 sp1 ok1 out1]) ?c2 =
      ((ok2, out2), tr @ [Cmd ?c1 sp1 ok1 out1, Cmd ?c2 sp2 ok2 out2])"
    using run_command_shape [of w "tr @ [Cmd ?c1 sp1 ok1 out1]" ?c2] by (auto simp: remove_sudo_def)
  have a: "apply_time_settings w tr (Some data) = timedatectl_manual w tr (Some d) (Some t)"
    using h by (simp add: apply_time_settings_def Let_def timedatectl_time_settings_def)
  have b: "timedatectl_manual w tr (Some d) (Some t) =
      (if \<not> ok1 then (Response 500 ''error'' (''Failed to disable NTP: '' @ out1), tr @ [Cmd ?c1 sp1 ok1 out1])
       else if ok2 then (Response 200 ''success'' ''Manual time set successfully.'',
                         tr @ [Cmd ?c1 sp1 ok1 out1, Cmd ?c2 sp2 ok2 out2])
       else (Response 500 ''error'' (''Failed to set manual time: '' @ out2),
             tr @ [Cmd ?c1 sp1 ok1 out1, Cmd ?c2 sp2 ok2 out2]))"
    using h r1 r2
    by (cases ok1; cases ok2; simp add: timedatectl_manual_def truthy_def py_str_def respond_def)
  show "\<exists>sp1 ok1 out1.
      (\<not> ok1 \<longrightarrow>
         apply_time_settings w tr (Some data) =
           (Response 500 ''error'' (''Failed to disable NTP: '' @ out1),
            tr @ [Cmd ?c1 sp1 ok1 out1])) \<and>
      (ok1 \<longrightarrow>
         (\<exists>sp2 ok2 out2.
            snd (apply_time_settings w tr (Some data)) =
              tr @ [Cmd ?c1 sp1 ok1 out1, Cmd ?c2 sp2 ok2 out2] \<and>
            fst (apply_time_settings w tr (Some data)) =
              (if ok2 then Response 200 ''success'' ''Manual time set successfully.''
               else Response 500 ''error'' (''Failed to set manual time: '' @ out2))))"
  proof (rule exI [of _ sp1], rule exI [of _ ok1], rule exI [of _ out1], intro conjI impI)
    assume "\<not> ok1"
    then show "apply_time_settings w tr (Some data) =
           (Response 500 ''error'' (''Failed to disable NTP: '' @ out1), tr @ [Cmd ?c1 sp1 ok1 out1])"
      by (simp add: a b)
  next
    assume "ok1"
    then have "snd (apply_time_settings w tr (Some data)) =
              tr @ [Cmd ?c1 sp1 ok1 out1, Cmd ?c2 sp2 ok2 out2] \<and>
            fst (apply_time_settings w tr (Some data)) =
              (if ok2 then Response 200 ''success'' ''Manual time set successfully.''
               else Response 500 ''error'' (''Failed to set manual time: '' @ out2))"
      by (simp add: a b)
    then show "\<exists>sp2 ok2 out2.
            snd (apply_time_settings w tr (Some data)) =
              tr @ [Cmd ?c1 sp1 ok1 out1, Cmd ?c2 sp2 ok2 out2] \<and>
            fst (apply_time_settings w tr (Some data)) =
              (if ok2 then Response 200 ''success'' ''Manual time set successfully.''
               else Response 500 ''error'' (''Failed to set manual time: '' @ out2))"
      by blast
  qed
qed

text \<open>A host on which only the set-time command fails.\<close>

theorem manual_time_not_atomic_witness:
  "get_ubuntu_version (host_except False noble [[''timedatectl'', ''set-time'', ''2024-12-01 10:00:00'']]) \<noteq> ''16.04'' \<and>
   strptime (''2024-12-01'' @ '' '' @ ''10:00'') \<noteq> None \<and>
   apply_time_settings (host_except False noble [[''timedatectl'', ''set-time'', ''2024-12-01 10:00:00'']]) []
       (Some [(''timeType'', Some ''manual''), (''manualDate'', Some ''2024-12-01''), (''manualTime'', Some ''10:00'')])
     = (Response 500 ''error'' ''Failed to set manual time: Command execution failed: failed'',
        [Cmd [''timedatectl'', ''set-ntp'', ''false''] True True [],
         Cmd [''timedatectl'', ''set-time'', ''2024-12-01 10:00:00''] True False ''Command execution failed: failed''])"
proof -
  let ?w = "host_except False noble [[''timedatectl'', ''set-time'', ''2024-12-01 10:00:00'']]"
  let ?data = "[(''timeType'', Some ''manual''), (''manualDate'', Some ''2024-12-01''), (''manualTime'', Some ''10:00'')]"
  have v: "get_ubuntu_version ?w \<noteq> ''16.04''" by (simp add: noble_version)
  have s: "strptime (''2024-12-01'' @ '' '' @ ''10:00'') \<noteq> None"
    using strptime_example_ok by simp
  have g: "get_field ?data ''timeType'' = Some ''manual''" "get_field ?data ''manualDate'' = Some ''2024-12-01''"
    "get_field ?data ''manualTime'' = Some ''10:00''"
    by (simp_all add: get_field_def)
  have r1: "run_command ?w [] [''timedatectl'', ''set-ntp'', ''false'']
      = ((True, []), [Cmd [''timedatectl'', ''set-ntp'', ''false''] True True []])"
    by (simp add: run_command_def remove_sudo_def host_except_def ok_outcome Let_def)
  have hyp: "get_ubuntu_version ?w \<noteq> ''16.04'' \<and> ?data \<noteq> [] \<and> get_field ?data ''timeType'' = Some ''manual'' \<and>
      get_field ?data ''manualDate'' = Some ''2024-12-01'' \<and> get_field ?data ''manualTime'' = Some ''10:00'' \<and>
      ''2024-12-01'' \<noteq> [] \<and> ''10:00'' \<noteq> [] \<and> strptime (''2024-12-01'' @ '' '' @ ''10:00'') \<noteq> None"
    using v s g by simp
  note c = manual_time_not_atomic [of ?w ?data "''2024-12-01''" "''10:00''" "[]", THEN mp, OF hyp]
  have e: "apply_time_settings ?w [] (Some ?data)
     = (Response 500 ''error'' ''Failed to set manual time: Command execution failed: failed'',
        [Cmd [''timedatectl'', ''set-ntp'', ''false''] True True [],
         Cmd [''timedatectl'', ''set-time'', ''2024-12-01 10:00:00''] True False ''Command execution failed: failed''])"
    using v s
    by (simp add: apply_time_settings_def Let_def get_field_def timedatectl_time_settings_def
          timedatectl_manual_def truthy_def py_str_def r1 run_command_def remove_sudo_def
          host_except_def ok_outcome failed_outcome respond_def)
  from c e v s show ?thesis by blast
qed

text \<open>
  C6. A manual time request whose date and time, both present, do not parse with the
  format \<^verbatim>\<open>%Y-%m-%d %H:%M\<close> as a date of the calendar is rejected with the format
  message and the trace unchanged: no command is run and no file written. The modern
  branch answers 400 with the message; the legacy configurator returns failure with the
  message after its prefix, which the handler answers with 500. The pair 2024-13-01 and
  10:00 does not parse.
\<close>

theorem invalid_manual_time_rejected:
  "(data \<noteq> [] \<and> get_field data ''timeType'' = Some ''manual'' \<and>
    get_field data ''manualDate'' = Some d \<and> get_field data ''manualTime'' = Some t \<and>
    d \<noteq> [] \<and> t \<noteq> [] \<and> strptime (d @ '' '' @ t) = None \<longrightarrow>
      snd (apply_time_settings w tr (Some data)) = tr \<and>
      fst (apply_time_settings w tr (Some data)) =
        (if get_ubuntu_version w = ''16.04''
         then Response 500 ''error'' (''Error applying time settings: '' @ invalid_format)
         else Response 400 ''error'' invalid_format)) \<and>
   strptime (''2024-13-01'' @ '' '' @ ''10:00'') = None"
proof -
  have r: "snd (apply_time_settings w tr (Some data)) = tr \<and>
      fst (apply_time_settings w tr (Some data)) =
        (if get_ubuntu_version w = ''16.04''
         then Response 500 ''error'' (''Error applying time settings: '' @ invalid_format)
         else Response 400 ''error'' invalid_format)"
    if h: "data \<noteq> []" "get_field data ''timeType'' = Some ''manual''"
      "get_field data ''manualDate'' = Some d" "get_field data ''manualTime'' = Some t"
      "d \<noteq> []" "t \<noteq> []" "strptime (d @ '' '' @ t) = None"
    using h
    by (simp add: apply_time_settings_def Let_def timedatectl_time_settings_def timedatectl_manual_def
          configure_legacy_time_ubuntu16_def legacy_time_manual_def truthy_def py_str_def
          respond_def time_error_def)
  have e: "strptime (''2024-13-01'' @ '' '' @ ''10:00'') = None"
    using strptime_example by simp
  from r e show ?thesis by blast
qed

theorem invalid_manual_time_rejected_witness:
  "strptime (''2024-13-01'' @ '' '' @ ''10:00'') = None \<and>
   apply_time_settings (host_except False noble []) []
       (Some [(''timeType'', Some ''manual''), (''manualDate'', Some ''2024-13-01''), (''manualTime'', Some ''10:00'')])
     = (Response 400 ''error'' invalid_format, []) \<and>
   apply_time_settings (host_except False xenial []) []
       (Some [(''timeType'', Some ''manual''), (''manualDate'', Some ''2024-13-01''), (''manualTime'', Some ''10:00'')])
     = (Response 500 ''error'' (''Error applying time settings: '' @ invalid_format), [])"
proof -
  let ?data = "[(''timeType'', Some ''manual''), (''manualDate'', Some ''2024-13-01''), (''manualTime'', Some ''10:00'')]"
  have s: "strptime (''2024-13-01'' @ '' '' @ ''10:00'') = None"
    using strptime_example by simp
  have hyp: "?data \<noteq> [] \<and> get_field ?data ''timeType'' = Some ''manual'' \<and>
    get_field ?data ''manualDate'' = Some ''2024-13-01'' \<and> get_field ?data ''manualTime'' = Some ''10:00'' \<and>
    ''2024-13-01'' \<noteq> [] \<and> ''10:00'' \<noteq> [] \<and> strptime (''2024-13-01'' @ '' '' @ ''10:00'') = None"
    using s by (simp add: get_field_def)
  note m = invalid_manual_time_rejected [of ?data "''2024-13-01''" "''10:00''" "host_except False noble []" "[]",
      THEN conjunct1, THEN mp, OF hyp]
  note l = invalid_manual_time_rejected [of ?data "''2024-13-01''" "''10:00''" "host_except False xenial []" "[]",
      THEN conjunct1, THEN mp, OF hyp]
  have 1: "apply_time_settings (host_except False noble []) [] (Some ?data) = (Response 400 ''error'' invalid_format, [])"
    using m by (simp add: noble_version prod_eq_iff)
  have 2: "apply_time_settings (host_except False xenial []) [] (Some ?data)
      = (Response 500 ''error'' (''Error applying time settings: '' @ invalid_format), [])"
    using l by (simp add: xenial_version prod_eq_iff)
  from s 1 2 show ?thesis by blast
qed

section \<open>Properties of the legacy configurators\<close>

lemma run_command_shape_plain:
  "name \<noteq> ''sudo'' \<Longrightarrow>
     \<exists>sp ok out. run_command w tr (name # args) = ((ok, out), tr @ [Cmd (name # args) sp ok out])"
  using run_command_shape [of w tr "name # args"] by (simp add: remove_sudo_def)

lemma run_command_ev:
  "run_command w tr c = ((ev_ok (ev w tr c), ev_out (ev w tr c)), tr @ [ev w tr c])"
proof -
  obtain sp ok out where "run_command w tr c = ((ok, out), tr @ [Cmd (remove_sudo c) sp ok out])"
    using run_command_shape [of w tr c] by blast
  then show ?thesis by (simp add: ev_def)
qed

lemma ev_plain:
  "name \<noteq> ''sudo'' \<Longrightarrow> \<exists>sp ok out. ev w tr (name # args) = Cmd (name # args) sp ok out"
  using run_command_shape_plain [of name w tr args] by (auto simp: ev_def)

lemma ev_cp: "\<exists>ok out. ev w tr [''cp'', a, b] = Cmd [''cp'', a, b] True ok out"
  by (auto simp: ev_def run_command_def remove_sudo_def mockable_def Let_def)

lemma effect_ev:
  "name \<noteq> ''sudo'' \<Longrightarrow> name \<noteq> ''cp'' \<Longrightarrow> effect fs (ev w tr (name # args)) = fs"
proof -
  assume n: "name \<noteq> ''sudo''" "name \<noteq> ''cp''"
  then obtain sp ok out where "ev w tr (name # args) = Cmd (name # args) sp ok out"
    using ev_plain [of name w tr args] by blast
  with n show ?thesis by (simp split: list.splits)
qed

lemma files_after_append: "files_after fs (xs @ ys) = files_after (files_after fs xs) ys"
  by (simp add: files_after_def)

lemma files_after_Cons: "files_after fs (e # es) = files_after (effect fs e) es"
  by (simp add: files_after_def)

lemma files_after_Nil: "files_after fs [] = fs"
  by (simp add: files_after_def)

lemma new_events_append: "new_events tr (tr @ evs) = evs"
  by (simp add: new_events_def)

lemma run_host_except:
  "name \<noteq> ''sudo'' \<Longrightarrow>
   run_command (host_except False rel bad) tr (name # args) =
     (if name # args \<in> set bad
      then ((False, ''Command execution failed: failed''),
            tr @ [Cmd (name # args) True False ''Command execution failed: failed''])
      else ((True, []), tr @ [Cmd (name # args) True True []]))"
  by (simp add: run_command_def remove_sudo_def host_except_def ok_outcome failed_outcome Let_def)

lemma ev_host_except:
  "name \<noteq> ''sudo'' \<Longrightarrow>
   ev (host_except False rel bad) tr (name # args) =
     (if name # args \<in> set bad then Cmd (name # args) True False ''Command execution failed: failed''
      else Cmd (name # args) True True [])"
  by (simp add: ev_def run_host_except)

lemma io_host_except: "io_error (host_except m rel bad) tr p = None"
  by (simp add: host_except_def)

lemma dynamic_config:
  "interfaces_config (Some ''dynamic'') None None None None ''eth0'' =
     Inr (unlines [''auto lo'', ''iface lo inet loopback'', '''', ''auto eth0'', ''iface eth0 inet dhcp''])"
  by (simp add: interfaces_config_def)

text \<open>
  A run of the legacy network configurator for an intent that passes validation, when
  the interface file can be written: which commands are run, in which order, by the
  outcome the host gives each of them, and what is returned.
\<close>

lemma legacy_network_run:
  assumes "interfaces_config ip_type ip_address subnet_mask gateway dns_server i = Inr config"
    and "io_error w (tr @ [ev w tr [''cp'', interfaces_file, interfaces_backup]]) interfaces_file = None"
  shows "configure_legacy_network_ubuntu16 w tr ip_type ip_address subnet_mask gateway dns_server i =
     (let k = ev w tr [''cp'', interfaces_file, interfaces_backup];
          t1 = tr @ [k, FileWrite interfaces_file (Text config) True];
          t2 = (if ip_type = Some ''static'' then t1 @ [ev w t1 [''dhclient'', ''-r'', i]] else t1);
          r = ev w t2 [''service'', ''networking'', ''restart''];
          d = ev w (t2 @ [r]) [''ifdown'', i];
          u = ev w (t2 @ [r, d]) [''ifup'', i]
      in if ev_ok r then ((True, ''Network configuration applied successfully.''), t2 @ [r])
         else if ev_ok d then
           (if ev_ok u then ((True, ''Network configuration applied successfully.''), t2 @ [r, d, u])
            else (net_error (''Failed to apply network configuration: '' @ ev_out u),
                  t2 @ [r, d, u, ev w (t2 @ [r, d, u]) [''cp'', interfaces_backup, interfaces_file]]))
         else (net_error (''Failed to apply network configuration: '' @ ev_out d),
               t2 @ [r, d, ev w (t2 @ [r, d]) [''cp'', interfaces_backup, interfaces_file]]))"
  using assms
  by (simp add: configure_legacy_network_ubuntu16_def legacy_apply_def legacy_network_failed_def
        run_command_ev Let_def)

lemma restore_files:
  assumes "k = Cmd [''cp'', interfaces_file, interfaces_backup] True True outk"
    and "b = Cmd [''cp'', interfaces_backup, interfaces_file] True True outb"
    and "\<And>fs'. files_after fs' mid = fs'"
  shows "files_after fs ([k, FileWrite interfaces_file c True] @ mid @ [b]) interfaces_file = fs interfaces_file"
  using assms
  by (simp add: files_after_append files_after_Cons files_after_Nil interfaces_file_def interfaces_backup_def)

text \<open>
  C3, as stated, fails on a host where the two copies fail. There, with the restart and
  \<^verbatim>\<open>ifdown\<close> failing as well, the configurator reports failure and has run the copy of
  the backup over the interface file, but the file keeps the new configuration: the
  code looks at the outcome of neither copy.
\<close>

theorem legacy_restore_counterexample:
  "fst (configure_legacy_network_ubuntu16
         (host_except False xenial
            [[''cp'', interfaces_file, interfaces_backup], [''service'', ''networking'', ''restart''],
             [''ifdown'', ''eth0''], [''cp'', interfaces_backup, interfaces_file]])
         [] (Some ''dynamic'') None None None None ''eth0'')
     = (False, ''Error applying network settings: Failed to apply network configuration: Command execution failed: failed'') \<and>
   commands (snd (configure_legacy_network_ubuntu16
         (host_except False xenial
            [[''cp'', interfaces_file, interfaces_backup], [''service'', ''networking'', ''restart''],
             [''ifdown'', ''eth0''], [''cp'', interfaces_backup, interfaces_file]])
         [] (Some ''dynamic'') None None None None ''eth0''))
     = [[''cp'', interfaces_file, interfaces_backup], [''service'', ''networking'', ''restart''],
        [''ifdown'', ''eth0''], [''cp'', interfaces_backup, interfaces_file]] \<and>
   old_files interfaces_file = Some (Text ''auto lo'') \<and>
   files_after old_files (snd (configure_legacy_network_ubuntu16
         (host_except False xenial
            [[''cp'', interfaces_file, interfaces_backup], [''service'', ''networking'', ''restart''],
             [''ifdown'', ''eth0''], [''cp'', interfaces_backup, interfaces_file]])
         [] (Some ''dynamic'') None None None None ''eth0'')) interfaces_file
     = Some (Text (unlines [''auto lo'', ''iface lo inet loopback'', '''', ''auto eth0'', ''iface eth0 inet dhcp'']))"
proof -
  let ?K = "[''cp'', interfaces_file, interfaces_backup]"
  let ?R = "[''service'', ''networking'', ''restart'']"
  let ?B = "[''cp'', interfaces_backup, interfaces_file]"
  let ?F = "''Command execution failed: failed''"
  let ?cfg = "unlines [''auto lo'', ''iface lo inet loopback'', '''', ''auto eth0'', ''iface eth0 inet dhcp'']"
  let ?w = "host_except False xenial [?K, ?R, [''ifdown'', ''eth0''], ?B]"
  have e: "configure_legacy_network_ubuntu16 ?w [] (Some ''dynamic'') None None None None ''eth0'' =
      ((False, ''Error applying network settings: Failed to apply network configuration: Command execution failed: failed''),
       [Cmd ?K True False ?F, FileWrite interfaces_file (Text ?cfg) True, Cmd ?R True False ?F,
        Cmd [''ifdown'', ''eth0''] True False ?F, Cmd ?B True False ?F])"
    by (simp add: configure_legacy_network_ubuntu16_def dynamic_config run_host_except io_host_except
          legacy_apply_def legacy_network_failed_def net_error_def Let_def)
  have o: "old_files interfaces_file = Some (Text ''auto lo'')"
    by (simp add: old_files_def interfaces_file_def)
  have f: "files_after old_files
       [Cmd ?K True False ?F, FileWrite interfaces_file (Text ?cfg) True, Cmd ?R True False ?F,
        Cmd [''ifdown'', ''eth0''] True False ?F, Cmd ?B True False ?F] interfaces_file = Some (Text ?cfg)"
    by (simp add: files_after_def)
  from e o f show ?thesis by simp
qed

text \<open>
  C3, amended. In a run of the legacy network configurator for an intent that passes
  validation, with the interface file writable, the first event is the copy of the
  interface file to its backup and the second the write of the new file. If then the
  restart of the networking service fails, \<^verbatim>\<open>ifdown\<close> is run, and \<^verbatim>\<open>ifup\<close> if that
  succeeded: when both succeed the result is success. When \<^verbatim>\<open>ifdown\<close> or \<^verbatim>\<open>ifup\<close>
  fails, the copy of the backup over the interface file is run as the last event and the
  result is failure; if that copy and the one to the backup succeeded, the interface
  file has the content it had before the run.
\<close>

theorem legacy_network_apply:
  "interfaces_config ip_type ip_address subnet_mask gateway dns_server i = Inr config \<and>
   io_error w (tr @ [ev w tr [''cp'', interfaces_file, interfaces_backup]]) interfaces_file = None \<longrightarrow>
   (let k = ev w tr [''cp'', interfaces_file, interfaces_backup];
        t1 = tr @ [k, FileWrite interfaces_file (Text config) True];
        t2 = (if ip_type = Some ''static'' then t1 @ [ev w t1 [''dhclient'', ''-r'', i]] else t1);
        r = ev w t2 [''service'', ''networking'', ''restart''];
        d = ev w (t2 @ [r]) [''ifdown'', i];
        u = ev w (t2 @ [r, d]) [''ifup'', i];
        b = ev w (t2 @ (if ev_ok d then [r, d, u] else [r, d])) [''cp'', interfaces_backup, interfaces_file];
        result = configure_legacy_network_ubuntu16 w tr ip_type ip_address subnet_mask gateway dns_server i
    in (\<not> ev_ok r \<and> ev_ok d \<and> ev_ok u \<longrightarrow>
          result = ((True, ''Network configuration applied successfully.''), t2 @ [r, d, u])) \<and>
       (\<not> ev_ok r \<and> \<not> ev_ok d \<longrightarrow>
          result = (net_error (''Failed to apply network configuration: '' @ ev_out d), t2 @ [r, d, b])) \<and>
       (\<not> ev_ok r \<and> ev_ok d \<and> \<not> ev_ok u \<longrightarrow>
          result = (net_error (''Failed to apply network configuration: '' @ ev_out u), t2 @ [r, d, u, b])) \<and>
       (\<not> ev_ok r \<and> \<not> (ev_ok d \<and> ev_ok u) \<and> ev_ok k \<and> ev_ok b \<longrightarrow>
          (\<forall>fs. files_after fs (new_events tr (snd result)) interfaces_file = fs interfaces_file)))"
proof (intro impI, elim conjE)
  assume c: "interfaces_config ip_type ip_address subnet_mask gateway dns_server i = Inr config"
    and io: "io_error w (tr @ [ev w tr [''cp'', interfaces_file, interfaces_backup]]) interfaces_file = None"
  define k where "k = ev w tr [''cp'', interfaces_file, interfaces_backup]"
  define dh where "dh = (if ip_type = Some ''static''
      then [ev w (tr @ [k, FileWrite interfaces_file (Text config) True]) [''dhclient'', ''-r'', i]] else [])"
  define t2 where "t2 = tr @ [k, FileWrite interfaces_file (Text config) True] @ dh"
  define r where "r = ev w t2 [''service'', ''networking'', ''restart'']"
  define d where "d = ev w (t2 @ [r]) [''ifdown'', i]"
  define u where "u = ev w (t2 @ [r, d]) [''ifup'', i]"
  define b where "b = ev w (t2 @ (if ev_ok d then [r, d, u] else [r, d])) [''cp'', interfaces_backup, interfaces_file]"
  define result where "result = configure_legacy_network_ubuntu16 w tr ip_type ip_address subnet_mask gateway dns_server i"
  have t2: "t2 = (if ip_type = Some ''static''
      then (tr @ [k, FileWrite interfaces_file (Text config) True]) @
           [ev w (tr @ [k, FileWrite interfaces_file (Text config) True]) [''dhclient'', ''-r'', i]]
      else tr @ [k, FileWrite interfaces_file (Text config) True])"
    by (simp add: t2_def dh_def)
  have run: "result =
      (if ev_ok r then ((True, ''Network configuration applied successfully.''), t2 @ [r])
       else if ev_ok d then
         (if ev_ok u then ((True, ''Network configuration applied successfully.''), t2 @ [r, d, u])
          else (net_error (''Failed to apply network configuration: '' @ ev_out u), t2 @ [r, d, u, b]))
       else (net_error (''Failed to apply network configuration: '' @ ev_out d), t2 @ [r, d, b]))"
    unfolding result_def legacy_network_run [OF c io]
    by (simp add: Let_def k_def [symmetric] t2 [symmetric] r_def [symmetric] d_def [symmetric]
          u_def [symmetric] b_def)
  have nodh: "files_after fs' dh = fs'" for fs'
    by (simp add: dh_def files_after_Cons files_after_Nil effect_ev)
  have nomid: "files_after fs' (dh @ (if ev_ok d then [r, d, u] else [r, d])) = fs'" for fs'
    by (simp add: files_after_append nodh files_after_Cons files_after_Nil r_def d_def u_def effect_ev)
  have files: "files_after fs (new_events tr (snd result)) interfaces_file = fs interfaces_file"
    if f: "\<not> ev_ok r" "\<not> (ev_ok d \<and> ev_ok u)" "ev_ok k" "ev_ok b" for fs
  proof -
    obtain okk outk where k': "k = Cmd [''cp'', interfaces_file, interfaces_backup] True okk outk"
      using ev_cp [of w tr interfaces_file interfaces_backup] by (auto simp: k_def)
    obtain okb outb where b': "b = Cmd [''cp'', interfaces_backup, interfaces_file] True okb outb"
      using ev_cp [of w "t2 @ (if ev_ok d then [r, d, u] else [r, d])" interfaces_backup interfaces_file]
      by (auto simp: b_def)
    from f k' b' have kb: "k = Cmd [''cp'', interfaces_file, interfaces_backup] True True outk"
      "b = Cmd [''cp'', interfaces_backup, interfaces_file] True True outb"
      by simp_all
    have "snd result = tr @ ([k, FileWrite interfaces_file (Text config) True] @
        (dh @ (if ev_ok d then [r, d, u] else [r, d])) @ [b])"
      using f by (auto simp: run t2_def)
    then have "new_events tr (snd result) = [k, FileWrite interfaces_file (Text config) True] @
        (dh @ (if ev_ok d then [r, d, u] else [r, d])) @ [b]"
      by (simp only: new_events_append)
    then show ?thesis
      using restore_files [OF kb nomid, of fs "Text config"] by simp
  qed
  have "(\<not> ev_ok r \<and> ev_ok d \<and> ev_ok u \<longrightarrow>
          result = ((True, ''Network configuration applied successfully.''), t2 @ [r, d, u])) \<and>
       (\<not> ev_ok r \<and> \<not> ev_ok d \<longrightarrow>
          result = (net_error (''Failed to apply network configuration: '' @ ev_out d), t2 @ [r, d, b])) \<and>
       (\<not> ev_ok r \<and> ev_ok d \<and> \<not> ev_ok u \<longrightarrow>
          result = (net_error (''Failed to apply network configuration: '' @ ev_out u), t2 @ [r, d, u, b])) \<and>
       (\<not> ev_ok r \<and> \<not> (ev_ok d \<and> ev_ok u) \<and> ev_ok k \<and> ev_ok b \<longrightarrow>
          (\<forall>fs. files_after fs (new_events tr (snd result)) interfaces_file = fs interfaces_file))"
    using files by (auto simp: run)
  then show "let k = ev w tr [''cp'', interfaces_file, interfaces_backup];
        t1 = tr @ [k, FileWrite interfaces_file (Text config) True];
        t2 = (if ip_type = Some ''static'' then t1 @ [ev w t1 [''dhclient'', ''-r'', i]] else t1);
        r = ev w t2 [''service'', ''networking'', ''restart''];
        d = ev w (t2 @ [r]) [''ifdown'', i];
        u = ev w (t2 @ [r, d]) [''ifup'', i];
        b = ev w (t2 @ (if ev_ok d then [r, d, u] else [r, d])) [''cp'', interfaces_backup, interfaces_file];
        result = configure_legacy_network_ubuntu16 w tr ip_type ip_address subnet_mask gateway dns_server i
    in (\<not> ev_ok r \<and> ev_ok d \<and> ev_ok u \<longrightarrow>
          result = ((True, ''Network configuration applied successfully.''), t2 @ [r, d, u])) \<and>
       (\<not> ev_ok r \<and> \<not> ev_ok d \<longrightarrow>
          result = (net_error (''Failed to apply network configuration: '' @ ev_out d), t2 @ [r, d, b])) \<and>
       (\<not> ev_ok r \<and> ev_ok d \<and> \<not> ev_ok u \<longrightarrow>
          result = (net_error (''Failed to apply network configuration: '' @ ev_out u), t2 @ [r, d, u, b])) \<and>
       (\<not> ev_ok r \<and> \<not> (ev_ok d \<and> ev_ok u) \<and> ev_ok k \<and> ev_ok b \<longrightarrow>
          (\<forall>fs. files_after fs (new_events tr (snd result)) interfaces_file = fs interfaces_file))"
    unfolding Let_def k_def [symmetric] t2 [symmetric] r_def [symmetric] d_def [symmetric]
      u_def [symmetric] b_def [symmetric] result_def [symmetric] .
qed
text \<open>
  Two hosts for a dynamic intent: on the first only the service restart fails, on the
  second the restart and \<^verbatim>\<open>ifdown\<close> fail, and the two copies succeed.
\<close>

theorem legacy_network_apply_witness:
  "interfaces_config (Some ''dynamic'') None None None None ''eth0'' =
     Inr (unlines [''auto lo'', ''iface lo inet loopback'', '''', ''auto eth0'', ''iface eth0 inet dhcp'']) \<and>
   configure_legacy_network_ubuntu16 (host_except False xenial [[''service'', ''networking'', ''restart'']]) []
       (Some ''dynamic'') None None None None ''eth0''
     = ((True, ''Network configuration applied successfully.''),
        [Cmd [''cp'', interfaces_file, interfaces_backup] True True [],
         FileWrite interfaces_file
           (Text (unlines [''auto lo'', ''iface lo inet loopback'', '''', ''auto eth0'', ''iface eth0 inet dhcp''])) True,
         Cmd [''service'', ''networking'', ''restart''] True False ''Command execution failed: failed'',
         Cmd [''ifdown'', ''eth0''] True True [],
         Cmd [''ifup'', ''eth0''] True True []]) \<and>
   configure_legacy_network_ubuntu16
       (host_except False xenial [[''service'', ''networking'', ''restart''], [''ifdown'', ''eth0'']]) []
       (Some ''dynamic'') None None None None ''eth0''
     = (net_error (''Failed to apply network configuration: Command execution failed: failed''),
        [Cmd [''cp'', interfaces_file, interfaces_backup] True True [],
         FileWrite interfaces_file
           (Text (unlines [''auto lo'', ''iface lo inet loopback'', '''', ''auto eth0'', ''iface eth0 inet dhcp''])) True,
         Cmd [''service'', ''networking'', ''restart''] True False ''Command execution failed: failed'',
         Cmd [''ifdown'', ''eth0''] True False ''Command execution failed: failed'',
         Cmd [''cp'', interfaces_backup, interfaces_file] True True []]) \<and>
   files_after old_files
     (new_events [] (snd (configure_legacy_network_ubuntu16
        (host_except False xenial [[''service'', ''networking'', ''restart''], [''ifdown'', ''eth0'']]) []
        (Some ''dynamic'') None None None None ''eth0''))) interfaces_file
     = old_files interfaces_file"
proof -
  let ?R = "[''service'', ''networking'', ''restart'']"
  let ?cfg = "unlines [''auto lo'', ''iface lo inet loopback'', '''', ''auto eth0'', ''iface eth0 inet dhcp'']"
  let ?w1 = "host_except False xenial [?R]"
  let ?w2 = "host_except False xenial [?R, [''ifdown'', ''eth0'']]"
  have h1: "interfaces_config (Some ''dynamic'') None None None None ''eth0'' = Inr ?cfg \<and>
      io_error ?w1 ([] @ [ev ?w1 [] [''cp'', interfaces_file, interfaces_backup]]) interfaces_file = None"
    by (simp add: dynamic_config io_host_except)
  have h2: "interfaces_config (Some ''dynamic'') None None None None ''eth0'' = Inr ?cfg \<and>
      io_error ?w2 ([] @ [ev ?w2 [] [''cp'', interfaces_file, interfaces_backup]]) interfaces_file = None"
    by (simp add: dynamic_config io_host_except)
  note a1 = legacy_network_apply [of "Some ''dynamic''" None None None None "''eth0''" ?cfg ?w1 "[]", THEN mp, OF h1]
  note a2 = legacy_network_apply [of "Some ''dynamic''" None None None None "''eth0''" ?cfg ?w2 "[]", THEN mp, OF h2]
  have 1: "configure_legacy_network_ubuntu16 ?w1 [] (Some ''dynamic'') None None None None ''eth0''
     = ((True, ''Network configuration applied successfully.''),
        [Cmd [''cp'', interfaces_file, interfaces_backup] True True [],
         FileWrite interfaces_file (Text ?cfg) True,
         Cmd ?R True False ''Command execution failed: failed'',
         Cmd [''ifdown'', ''eth0''] True True [],
         Cmd [''ifup'', ''eth0''] True True []])"
    using a1 by (simp add: Let_def ev_host_except)
  have 2: "configure_legacy_network_ubuntu16 ?w2 [] (Some ''dynamic'') None None None None ''eth0''
     = (net_error (''Failed to apply network configuration: Command execution failed: failed''),
        [Cmd [''cp'', interfaces_file, interfaces_backup] True True [],
         FileWrite interfaces_file (Text ?cfg) True,
         Cmd ?R True False ''Command execution failed: failed'',
         Cmd [''ifdown'', ''eth0''] True False ''Command execution failed: failed'',
         Cmd [''cp'', interfaces_backup, interfaces_file] True True []])"
    using a2 by (simp add: Let_def ev_host_except)
  have 3: "files_after old_files
     (new_events [] (snd (configure_legacy_network_ubuntu16 ?w2 [] (Some ''dynamic'') None None None None ''eth0'')))
       interfaces_file = old_files interfaces_file"
  proof -
    note d2 = a2 [unfolded Let_def, THEN conjunct2, THEN conjunct2, THEN conjunct2]
    from d2 have "\<forall>fs. files_after fs
        (new_events [] (snd (configure_legacy_network_ubuntu16 ?w2 [] (Some ''dynamic'') None None None None ''eth0'')))
          interfaces_file = fs interfaces_file"
      by (simp add: ev_host_except)
    then show ?thesis by blast
  qed
  from h1 1 2 3 show ?thesis by blast
qed

section \<open>Validation of static intents\<close>

lemma static_bad_mask_config:
  "interfaces_config (Some ''static'') (Some ''192.168.1.50'') (Some ''abc'') (Some ''192.168.1.1'') None ''eth0'' =
     Inr (unlines [''auto lo'', ''iface lo inet loopback'', '''', ''auto eth0'', ''iface eth0 inet static'',
                   ''    address 192.168.1.50'', ''    netmask abc'', ''    gateway 192.168.1.1'',
                   ''    dns-nameservers 8.8.8.8''])"
  by (simp add: interfaces_config_def truthy_def py_str_def)

lemma cidr_abc: "subnet_mask_to_cidr ''abc'' = None"
  by code_simp

lemma host_except_interface: "get_network_interface_name (host_except m rel bad) = Some ''eth0''"
  by (simp add: get_network_interface_name_def host_except_def is_wired_def startswith_def)

text \<open>
  C4, as stated, fails in the legacy dialect on a host where every command succeeds.
  A static intent whose mask \<^verbatim>\<open>abc\<close> fails the conversion is not rejected: the interface
  file is written with that mask, the commands run and the answer is 200. A static
  intent without gateway is answered with an error, but a command is run for it: the
  copy of the backup over the interface file.
\<close>

theorem legacy_static_validation_counterexample:
  "subnet_mask_to_cidr ''abc'' = None \<and>
   apply_network_settings (host_except False xenial []) []
       (Some [(''ipType'', Some ''static''), (''ipAddress'', Some ''192.168.1.50''),
              (''subnetMask'', Some ''abc''), (''gateway'', Some ''192.168.1.1'')])
     = (Response 200 ''success'' ''Network configuration applied successfully.'',
        [Cmd [''cp'', interfaces_file, interfaces_backup] True True [],
         FileWrite interfaces_file
           (Text (unlines [''auto lo'', ''iface lo inet loopback'', '''', ''auto eth0'', ''iface eth0 inet static'',
                           ''    address 192.168.1.50'', ''    netmask abc'', ''    gateway 192.168.1.1'',
                           ''    dns-nameservers 8.8.8.8''])) True,
         Cmd [''dhclient'', ''-r'', ''eth0''] True True [],
         Cmd [''service'', ''networking'', ''restart''] True True []]) \<and>
   apply_network_settings (host_except False xenial []) []
       (Some [(''ipType'', Some ''static''), (''ipAddress'', Some ''192.168.1.50''),
              (''subnetMask'', Some ''255.255.255.0'')])
     = (Response 500 ''error'' (''Error applying network settings: '' @ static_required),
        [Cmd [''cp'', interfaces_backup, interfaces_file] True True []])"
proof (intro conjI)
  show "subnet_mask_to_cidr ''abc'' = None" by (rule cidr_abc)
  show "apply_network_settings (host_except False xenial []) []
       (Some [(''ipType'', Some ''static''), (''ipAddress'', Some ''192.168.1.50''),
              (''subnetMask'', Some ''abc''), (''gateway'', Some ''192.168.1.1'')])
     = (Response 200 ''success'' ''Network configuration applied successfully.'',
        [Cmd [''cp'', interfaces_file, interfaces_backup] True True [],
         FileWrite interfaces_file
           (Text (unlines [''auto lo'', ''iface lo inet loopback'', '''', ''auto eth0'', ''iface eth0 inet static'',
                           ''    address 192.168.1.50'', ''    netmask abc'', ''    gateway 192.168.1.1'',
                           ''    dns-nameservers 8.8.8.8''])) True,
         Cmd [''dhclient'', ''-r'', ''eth0''] True True [],
         Cmd [''service'', ''networking'', ''restart''] True True []])"
    by (simp add: apply_network_settings_def Let_def get_field_def host_except_interface xenial_version
          configure_legacy_network_ubuntu16_def static_bad_mask_config run_host_except io_host_except
          legacy_apply_def respond_def)
  show "apply_network_settings (host_except False xenial []) []
       (Some [(''ipType'', Some ''static''), (''ipAddress'', Some ''192.168.1.50''),
              (''subnetMask'', Some ''255.255.255.0'')])
     = (Response 500 ''error'' (''Error applying network settings: '' @ static_required),
        [Cmd [''cp'', interfaces_backup, interfaces_file] True True []])"
    by (simp add: apply_network_settings_def Let_def get_field_def host_except_interface xenial_version
          configure_legacy_network_ubuntu16_def interfaces_config_def truthy_def
          legacy_network_failed_def run_host_except respond_def net_error_def)
qed

text \<open>
  C4, amended. In the modern dialect a static intent that lacks the address, the mask
  or the gateway, or whose mask fails the conversion, is answered with 400 and the trace
  is unchanged: no file is written and no command run. The legacy dialect converts no
  mask: there a static intent with non-empty address, mask and gateway is applied
  whatever the mask is, which is written to the interface file as it was given; when
  the write and the restart of the networking service succeed the answer is 200.
\<close>

theorem static_intent_rejected:
  "(data \<noteq> [] \<and> get_network_interface_name w = Some i \<and> i \<noteq> [] \<and>
    get_field data ''ipType'' = Some ''static'' \<and> get_ubuntu_version w \<noteq> ''16.04'' \<and>
    (\<not> truthy (get_field data ''ipAddress'') \<or> \<not> truthy (get_field data ''subnetMask'') \<or>
     \<not> truthy (get_field data ''gateway'') \<or>
     subnet_mask_to_cidr (py_str (get_field data ''subnetMask'')) = None) \<longrightarrow>
      apply_network_settings w tr (Some data) =
        (Response 400 ''error''
           (if truthy (get_field data ''ipAddress'') \<and> truthy (get_field data ''subnetMask'') \<and>
               truthy (get_field data ''gateway'')
            then ''Invalid subnet mask provided for CIDR conversion.'' else static_required), tr)) \<and>
   (data \<noteq> [] \<and> get_network_interface_name w = Some i \<and> i \<noteq> [] \<and>
    get_field data ''ipType'' = Some ''static'' \<and> get_ubuntu_version w = ''16.04'' \<and>
    get_field data ''ipAddress'' = Some a \<and> a \<noteq> [] \<and> get_field data ''subnetMask'' = Some m \<and> m \<noteq> [] \<and>
    get_field data ''gateway'' = Some g \<and> g \<noteq> [] \<longrightarrow>
      (let config = unlines [''auto lo'', ''iface lo inet loopback'', [], ''auto '' @ i,
                             ''iface '' @ i @ '' inet static'', ''    address '' @ a, ''    netmask '' @ m,
                             ''    gateway '' @ g,
                             (if truthy (get_field data ''dnsServer'')
                              then ''    dns-nameservers '' @ py_str (get_field data ''dnsServer'')
                              else ''    dns-nameservers 8.8.8.8'')];
           k = ev w tr [''cp'', interfaces_file, interfaces_backup];
           t1 = tr @ [k, FileWrite interfaces_file (Text config) True];
           l = ev w t1 [''dhclient'', ''-r'', i];
           r = ev w (t1 @ [l]) [''service'', ''networking'', ''restart'']
       in io_error w (tr @ [k]) interfaces_file = None \<and> ev_ok r \<longrightarrow>
            apply_network_settings w tr (Some data) =
              (Response 200 ''success'' ''Network configuration applied successfully.'', t1 @ [l, r])))"
proof (intro conjI impI)
  assume "data \<noteq> [] \<and> get_network_interface_name w = Some i \<and> i \<noteq> [] \<and>
    get_field data ''ipType'' = Some ''static'' \<and> get_ubuntu_version w \<noteq> ''16.04'' \<and>
    (\<not> truthy (get_field data ''ipAddress'') \<or> \<not> truthy (get_field data ''subnetMask'') \<or>
     \<not> truthy (get_field data ''gateway'') \<or>
     subnet_mask_to_cidr (py_str (get_field data ''subnetMask'')) = None)"
  then show "apply_network_settings w tr (Some data) =
        (Response 400 ''error''
           (if truthy (get_field data ''ipAddress'') \<and> truthy (get_field data ''subnetMask'') \<and>
               truthy (get_field data ''gateway'')
            then ''Invalid subnet mask provided for CIDR conversion.'' else static_required), tr)"
    by (auto simp: apply_network_settings_def Let_def netplan_network_settings_def
          generate_netplan_yaml_def handle_exn_def)
next
  assume h: "data \<noteq> [] \<and> get_network_interface_name w = Some i \<and> i \<noteq> [] \<and>
    get_field data ''ipType'' = Some ''static'' \<and> get_ubuntu_version w = ''16.04'' \<and>
    get_field data ''ipAddress'' = Some a \<and> a \<noteq> [] \<and> get_field data ''subnetMask'' = Some m \<and> m \<noteq> [] \<and>
    get_field data ''gateway'' = Some g \<and> g \<noteq> []"
  define config where "config = unlines [''auto lo'', ''iface lo inet loopback'', [], ''auto '' @ i,
                             ''iface '' @ i @ '' inet static'', ''    address '' @ a, ''    netmask '' @ m,
                             ''    gateway '' @ g,
                             (if truthy (get_field data ''dnsServer'')
                              then ''    dns-nameservers '' @ py_str (get_field data ''dnsServer'')
                              else ''    dns-nameservers 8.8.8.8'')]"
  define k where "k = ev w tr [''cp'', interfaces_file, interfaces_backup]"
  define t1 where "t1 = tr @ [k, FileWrite interfaces_file (Text config) True]"
  define l where "l = ev w t1 [''dhclient'', ''-r'', i]"
  define r where "r = ev w (t1 @ [l]) [''service'', ''networking'', ''restart'']"
  have c: "interfaces_config (Some ''static'') (Some a) (Some m) (Some g) (get_field data ''dnsServer'') i = Inr config"
    using h by (simp add: interfaces_config_def truthy_def py_str_def config_def Let_def)
  have ok: "apply_network_settings w tr (Some data) =
      (Response 200 ''success'' ''Network configuration applied successfully.'', t1 @ [l, r])"
    if io: "io_error w (tr @ [k]) interfaces_file = None" and rok: "ev_ok r"
  proof -
    have "configure_legacy_network_ubuntu16 w tr (Some ''static'') (Some a) (Some m) (Some g)
            (get_field data ''dnsServer'') i =
          ((True, ''Network configuration applied successfully.''), t1 @ [l, r])"
      unfolding legacy_network_run [OF c io [unfolded k_def]]
      using rok by (simp add: Let_def r_def l_def t1_def k_def)
    with h show ?thesis
      by (simp add: apply_network_settings_def Let_def respond_def)
  qed
  then show "let config = unlines [''auto lo'', ''iface lo inet loopback'', [], ''auto '' @ i,
                             ''iface '' @ i @ '' inet static'', ''    address '' @ a, ''    netmask '' @ m,
                             ''    gateway '' @ g,
                             (if truthy (get_field data ''dnsServer'')
                              then ''    dns-nameservers '' @ py_str (get_field data ''dnsServer'')
                              else ''    dns-nameservers 8.8.8.8'')];
           k = ev w tr [''cp'', interfaces_file, interfaces_backup];
           t1 = tr @ [k, FileWrite interfaces_file (Text config) True];
           l = ev w t1 [''dhclient'', ''-r'', i];
           r = ev w (t1 @ [l]) [''service'', ''networking'', ''restart'']
       in io_error w (tr @ [k]) interfaces_file = None \<and> ev_ok r \<longrightarrow>
            apply_network_settings w tr (Some data) =
              (Response 200 ''success'' ''Network configuration applied successfully.'', t1 @ [l, r])"
    unfolding Let_def config_def [symmetric] k_def [symmetric] t1_def [symmetric] l_def [symmetric]
      r_def [symmetric]
    by blast
qed

theorem static_intent_rejected_witness:
  "apply_network_settings (host_except False noble []) []
       (Some [(''ipType'', Some ''static''), (''ipAddress'', Some ''192.168.1.50''),
              (''subnetMask'', Some ''255.255.255.0'')])
     = (Response 400 ''error'' static_required, []) \<and>
   apply_network_settings (host_except False noble []) []
       (Some [(''ipType'', Some ''static''), (''ipAddress'', Some ''192.168.1.50''),
              (''subnetMask'', Some ''abc''), (''gateway'', Some ''192.168.1.1'')])
     = (Response 400 ''error'' ''Invalid subnet mask provided for CIDR conversion.'', []) \<and>
   code (fst (apply_network_settings (host_except False xenial []) []
       (Some [(''ipType'', Some ''static''), (''ipAddress'', Some ''192.168.1.50''),
              (''subnetMask'', Some ''abc''), (''gateway'', Some ''192.168.1.1'')]))) = 200"
proof -
  let ?d1 = "[(''ipType'', Some ''static''), (''ipAddress'', Some ''192.168.1.50''),
              (''subnetMask'', Some ''255.255.255.0'')]"
  let ?d2 = "[(''ipType'', Some ''static''), (''ipAddress'', Some ''192.168.1.50''),
              (''subnetMask'', Some ''abc''), (''gateway'', Some ''192.168.1.1'')]"
  let ?n = "host_except False noble []"
  let ?x = "host_except False xenial []"
  have h1: "?d1 \<noteq> [] \<and> get_network_interface_name ?n = Some ''eth0'' \<and> ''eth0'' \<noteq> [] \<and>
    get_field ?d1 ''ipType'' = Some ''static'' \<and> get_ubuntu_version ?n \<noteq> ''16.04'' \<and>
    (\<not> truthy (get_field ?d1 ''ipAddress'') \<or> \<not> truthy (get_field ?d1 ''subnetMask'') \<or>
     \<not> truthy (get_field ?d1 ''gateway'') \<or>
     subnet_mask_to_cidr (py_str (get_field ?d1 ''subnetMask'')) = None)"
    by (simp add: host_except_interface noble_version get_field_def truthy_def)
  have h2: "?d2 \<noteq> [] \<and> get_network_interface_name ?n = Some ''eth0'' \<and> ''eth0'' \<noteq> [] \<and>
    get_field ?d2 ''ipType'' = Some ''static'' \<and> get_ubuntu_version ?n \<noteq> ''16.04'' \<and>
    (\<not> truthy (get_field ?d2 ''ipAddress'') \<or> \<not> truthy (get_field ?d2 ''subnetMask'') \<or>
     \<not> truthy (get_field ?d2 ''gateway'') \<or>
     subnet_mask_to_cidr (py_str (get_field ?d2 ''subnetMask'')) = None)"
    by (simp add: host_except_interface noble_version get_field_def truthy_def py_str_def cidr_abc)
  have h3: "?d2 \<noteq> [] \<and> get_network_interface_name ?x = Some ''eth0'' \<and> ''eth0'' \<noteq> [] \<and>
    get_field ?d2 ''ipType'' = Some ''static'' \<and> get_ubuntu_version ?x = ''16.04'' \<and>
    get_field ?d2 ''ipAddress'' = Some ''192.168.1.50'' \<and> ''192.168.1.50'' \<noteq> [] \<and>
    get_field ?d2 ''subnetMask'' = Some ''abc'' \<and> ''abc'' \<noteq> [] \<and>
    get_field ?d2 ''gateway'' = Some ''192.168.1.1'' \<and> ''192.168.1.1'' \<noteq> []"
    by (simp add: host_except_interface xenial_version get_field_def)
  note t1 = static_intent_rejected [of ?d1 ?n "''eth0''" "[]", THEN conjunct1, THEN mp, OF h1]
  note t2 = static_intent_rejected [of ?d2 ?n "''eth0''" "[]", THEN conjunct1, THEN mp, OF h2]
  note t3 = static_intent_rejected [of ?d2 ?x "''eth0''" "[]" "''192.168.1.50''" "''abc''" "''192.168.1.1''",
      THEN conjunct2, THEN mp, OF h3]
  have 1: "apply_network_settings ?n [] (Some ?d1) = (Response 400 ''error'' static_required, [])"
    using t1 by (simp add: get_field_def truthy_def)
  have 2: "apply_network_settings ?n [] (Some ?d2) =
      (Response 400 ''error'' ''Invalid subnet mask provided for CIDR conversion.'', [])"
    using t2 by (simp add: get_field_def truthy_def)
  have 3: "code (fst (apply_network_settings ?x [] (Some ?d2))) = 200"
    using t3 by (simp add: Let_def ev_host_except io_host_except)
  from 1 2 3 show ?thesis by blast
qed

section \<open>Fatal and best-effort steps of the legacy Time Configurator\<close>

lemma ntp_service_ev:
  "ntp_service w tr action =
     (let wh = ev w tr [''which'', ''systemctl''];
          s = ev w (tr @ [wh]) (if ev_ok wh then [''systemctl'', action, ''ntp''] else [''service'', ''ntp'', action])
      in ((ev_ok s, ev_out s), tr @ [wh, s]))"
  by (simp add: ntp_service_def run_command_ev Let_def)

text \<open>
  C5, as stated, fails: the outcome of the step that stops the time daemon is not looked
  at. On a host where \<^verbatim>\<open>systemctl stop ntp\<close> fails and every other command succeeds,
  the legacy Time Configurator returns success, in NTP mode and in manual mode.
\<close>

theorem legacy_time_stop_failure_counterexample:
  "configure_legacy_time_ubuntu16 (host_except False xenial [[''systemctl'', ''stop'', ''ntp'']]) []
       (Some ''ntp'') None None None
     = ((True, ''NTP synchronization enabled successfully.''),
        [Cmd [''apt-get'', ''update''] True True [],
         Cmd [''apt-get'', ''install'', ''-y'', ''ntpsec''] True True [],
         Cmd [''which'', ''systemctl''] True True [],
         Cmd [''systemctl'', ''stop'', ''ntp''] True False ''Command execution failed: failed'',
         FileWrite ''/etc/ntp.conf'' (Text (ntp_config None)) True,
         Cmd [''which'', ''systemctl''] True True [],
         Cmd [''systemctl'', ''start'', ''ntp''] True True [],
         Cmd [''ntpsec-ntpdate'', ''-s'', ''pool.ntp.org''] True True []]) \<and>
   configure_legacy_time_ubuntu16 (host_except False xenial [[''systemctl'', ''stop'', ''ntp'']]) []
       (Some ''manual'') None (Some ''2024-12-01'') (Some ''10:00'')
     = ((True, ''Manual time set successfully.''),
        [Cmd [''which'', ''systemctl''] True True [],
         Cmd [''systemctl'', ''stop'', ''ntp''] True False ''Command execution failed: failed'',
         Cmd [''date'', ''-s'', ''2024-12-01 10:00:00''] True True [],
         Cmd [''hwclock'', ''--systohc''] True True []])"
proof (intro conjI)
  show "configure_legacy_time_ubuntu16 (host_except False xenial [[''systemctl'', ''stop'', ''ntp'']]) []
       (Some ''ntp'') None None None
     = ((True, ''NTP synchronization enabled successfully.''),
        [Cmd [''apt-get'', ''update''] True True [],
         Cmd [''apt-get'', ''install'', ''-y'', ''ntpsec''] True True [],
         Cmd [''which'', ''systemctl''] True True [],
         Cmd [''systemctl'', ''stop'', ''ntp''] True False ''Command execution failed: failed'',
         FileWrite ''/etc/ntp.conf'' (Text (ntp_config None)) True,
         Cmd [''which'', ''systemctl''] True True [],
         Cmd [''systemctl'', ''start'', ''ntp''] True True [],
         Cmd [''ntpsec-ntpdate'', ''-s'', ''pool.ntp.org''] True True []])"
    by (simp add: configure_legacy_time_ubuntu16_def legacy_time_ntp_def ntp_service_def run_host_except
          io_host_except server_or_default_def truthy_def Let_def)
  show "configure_legacy_time_ubuntu16 (host_except False xenial [[''systemctl'', ''stop'', ''ntp'']]) []
       (Some ''manual'') None (Some ''2024-12-01'') (Some ''10:00'')
     = ((True, ''Manual time set successfully.''),
        [Cmd [''which'', ''systemctl''] True True [],
         Cmd [''systemctl'', ''stop'', ''ntp''] True False ''Command execution failed: failed'',
         Cmd [''date'', ''-s'', ''2024-12-01 10:00:00''] True True [],
         Cmd [''hwclock'', ''--systohc''] True True []])"
    using strptime_example_ok
    by (simp add: configure_legacy_time_ubuntu16_def legacy_time_manual_def ntp_service_def run_host_except
          truthy_def py_str_def Let_def)
qed

text \<open>
  C5, amended. A run of the legacy Time Configurator, with the outcome the host gives
  each command. In NTP mode the package lists are updated, the package installed, the
  daemon stopped, its configuration written, the daemon started and, if the start
  succeeded, one synchronisation forced: all of these are run whatever the earlier ones
  returned, and the result is success exactly when the start succeeded. In manual mode,
  for a valid date and time, the daemon is stopped, the date set and, if that succeeded,
  the hardware clock written: the result is success exactly when setting the date
  succeeded. So a failure of the installation, of the stop or of the forced
  synchronisation does not change the result, and a failure of the start or of the
  setting of the date makes it a failure.
\<close>

theorem legacy_time_fatal_steps:
  "(let a = ev w tr [''apt-get'', ''update''];
        p = ev w (tr @ [a]) [''apt-get'', ''install'', ''-y'', ''ntpsec''];
        wh = ev w (tr @ [a, p]) [''which'', ''systemctl''];
        s = ev w (tr @ [a, p, wh])
              (if ev_ok wh then [''systemctl'', ''stop'', ''ntp''] else [''service'', ''ntp'', ''stop'']);
        t = tr @ [a, p, wh, s, FileWrite ''/etc/ntp.conf'' (Text (ntp_config ntp_server)) True];
        wh2 = ev w t [''which'', ''systemctl''];
        st = ev w (t @ [wh2])
               (if ev_ok wh2 then [''systemctl'', ''start'', ''ntp''] else [''service'', ''ntp'', ''start'']);
        n = ev w (t @ [wh2, st]) [''ntpsec-ntpdate'', ''-s'', server_or_default ntp_server]
    in io_error w (tr @ [a, p, wh, s]) ''/etc/ntp.conf'' = None \<longrightarrow>
         configure_legacy_time_ubuntu16 w tr (Some ''ntp'') ntp_server manual_date manual_time =
           (if ev_ok st then ((True, ''NTP synchronization enabled successfully.''), t @ [wh2, st, n])
            else (time_error (''Failed to start NTP service: '' @ ev_out st), t @ [wh2, st]))) \<and>
   (truthy manual_date \<and> truthy manual_time \<and>
    strptime (py_str manual_date @ '' '' @ py_str manual_time) \<noteq> None \<longrightarrow>
      (let wh = ev w tr [''which'', ''systemctl''];
           s = ev w (tr @ [wh])
                 (if ev_ok wh then [''systemctl'', ''stop'', ''ntp''] else [''service'', ''ntp'', ''stop'']);
           d = ev w (tr @ [wh, s]) [''date'', ''-s'', py_str manual_date @ '' '' @ py_str manual_time @ '':00''];
           h = ev w (tr @ [wh, s, d]) [''hwclock'', ''--systohc'']
       in configure_legacy_time_ubuntu16 w tr (Some ''manual'') ntp_server manual_date manual_time =
            (if ev_ok d then ((True, ''Manual time set successfully.''), tr @ [wh, s, d, h])
             else (time_error (''Failed to set manual time: '' @ ev_out d), tr @ [wh, s, d]))))"
proof (intro conjI impI)
  show "let a = ev w tr [''apt-get'', ''update''];
        p = ev w (tr @ [a]) [''apt-get'', ''install'', ''-y'', ''ntpsec''];
        wh = ev w (tr @ [a, p]) [''which'', ''systemctl''];
        s = ev w (tr @ [a, p, wh])
              (if ev_ok wh then [''systemctl'', ''stop'', ''ntp''] else [''service'', ''ntp'', ''stop'']);
        t = tr @ [a, p, wh, s, FileWrite ''/etc/ntp.conf'' (Text (ntp_config ntp_server)) True];
        wh2 = ev w t [''which'', ''systemctl''];
        st = ev w (t @ [wh2])
               (if ev_ok wh2 then [''systemctl'', ''start'', ''ntp''] else [''service'', ''ntp'', ''start'']);
        n = ev w (t @ [wh2, st]) [''ntpsec-ntpdate'', ''-s'', server_or_default ntp_server]
    in io_error w (tr @ [a, p, wh, s]) ''/etc/ntp.conf'' = None \<longrightarrow>
         configure_legacy_time_ubuntu16 w tr (Some ''ntp'') ntp_server manual_date manual_time =
           (if ev_ok st then ((True, ''NTP synchronization enabled successfully.''), t @ [wh2, st, n])
            else (time_error (''Failed to start NTP service: '' @ ev_out st), t @ [wh2, st]))"
    by (simp add: configure_legacy_time_ubuntu16_def legacy_time_ntp_def ntp_service_ev run_command_ev Let_def)
next
  assume h: "truthy manual_date \<and> truthy manual_time \<and>
    strptime (py_str manual_date @ '' '' @ py_str manual_time) \<noteq> None"
  then obtain v where v: "strptime (py_str manual_date @ '' '' @ py_str manual_time) = Some v"
    by blast
  from h v show "let wh = ev w tr [''which'', ''systemctl''];
           s = ev w (tr @ [wh])
                 (if ev_ok wh then [''systemctl'', ''stop'', ''ntp''] else [''service'', ''ntp'', ''stop'']);
           d = ev w (tr @ [wh, s]) [''date'', ''-s'', py_str manual_date @ '' '' @ py_str manual_time @ '':00''];
           h = ev w (tr @ [wh, s, d]) [''hwclock'', ''--systohc'']
       in configure_legacy_time_ubuntu16 w tr (Some ''manual'') ntp_server manual_date manual_time =
            (if ev_ok d then ((True, ''Manual time set successfully.''), tr @ [wh, s, d, h])
             else (time_error (''Failed to set manual time: '' @ ev_out d), tr @ [wh, s, d]))"
    by (simp add: configure_legacy_time_ubuntu16_def legacy_time_manual_def ntp_service_ev run_command_ev Let_def)
qed

text \<open>
  Three hosts: on the first the package installation, the stop of the daemon and the
  forced synchronisation fail; on the second only the start of the daemon fails; on the
  third only the setting of the date fails.
\<close>

theorem legacy_time_fatal_steps_witness:
  "fst (configure_legacy_time_ubuntu16
       (host_except False xenial [[''apt-get'', ''install'', ''-y'', ''ntpsec''], [''systemctl'', ''stop'', ''ntp''],
                                  [''ntpsec-ntpdate'', ''-s'', ''pool.ntp.org'']]) []
       (Some ''ntp'') None None None) = (True, ''NTP synchronization enabled successfully.'') \<and>
   configure_legacy_time_ubuntu16 (host_except False xenial [[''systemctl'', ''start'', ''ntp'']]) []
       (Some ''ntp'') None None None
     = (time_error ''Failed to start NTP service: Command execution failed: failed'',
        [Cmd [''apt-get'', ''update''] True True [],
         Cmd [''apt-get'', ''install'', ''-y'', ''ntpsec''] True True [],
         Cmd [''which'', ''systemctl''] True True [],
         Cmd [''systemctl'', ''stop'', ''ntp''] True True [],
         FileWrite ''/etc/ntp.conf'' (Text (ntp_config None)) True,
         Cmd [''which'', ''systemctl''] True True [],
         Cmd [''systemctl'', ''start'', ''ntp''] True False ''Command execution failed: failed'']) \<and>
   truthy (Some ''2024-12-01'') \<and> truthy (Some ''10:00'') \<and>
   strptime (py_str (Some ''2024-12-01'') @ '' '' @ py_str (Some ''10:00'')) \<noteq> None \<and>
   configure_legacy_time_ubuntu16 (host_except False xenial [[''date'', ''-s'', ''2024-12-01 10:00:00'']]) []
       (Some ''manual'') None (Some ''2024-12-01'') (Some ''10:00'')
     = (time_error ''Failed to set manual time: Command execution failed: failed'',
        [Cmd [''which'', ''systemctl''] True True [],
         Cmd [''systemctl'', ''stop'', ''ntp''] True True [],
         Cmd [''date'', ''-s'', ''2024-12-01 10:00:00''] True False ''Command execution failed: failed''])"
proof -
  let ?w1 = "host_except False xenial [[''apt-get'', ''install'', ''-y'', ''ntpsec''], [''systemctl'', ''stop'', ''ntp''],
                                  [''ntpsec-ntpdate'', ''-s'', ''pool.ntp.org'']]"
  let ?w2 = "host_except False xenial [[''systemctl'', ''start'', ''ntp'']]"
  let ?w3 = "host_except False xenial [[''date'', ''-s'', ''2024-12-01 10:00:00'']]"
  have v: "truthy (Some ''2024-12-01'') \<and> truthy (Some ''10:00'') \<and>
      strptime (py_str (Some ''2024-12-01'') @ '' '' @ py_str (Some ''10:00'')) \<noteq> None"
    using strptime_example_ok by (simp add: truthy_def py_str_def)
  note n1 = legacy_time_fatal_steps [of ?w1 "[]" None None None, THEN conjunct1]
  note n2 = legacy_time_fatal_steps [of ?w2 "[]" None None None, THEN conjunct1]
  note n3 = legacy_time_fatal_steps [of ?w3 "[]" None "Some ''2024-12-01''" "Some ''10:00''",
      THEN conjunct2, THEN mp, OF v]
  have 1: "fst (configure_legacy_time_ubuntu16 ?w1 [] (Some ''ntp'') None None None) =
      (True, ''NTP synchronization enabled successfully.'')"
    using n1 by (simp add: Let_def ev_host_except io_host_except server_or_default_def truthy_def)
  have 2: "configure_legacy_time_ubuntu16 ?w2 [] (Some ''ntp'') None None None
     = (time_error ''Failed to start NTP service: Command execution failed: failed'',
        [Cmd [''apt-get'', ''update''] True True [],
         Cmd [''apt-get'', ''install'', ''-y'', ''ntpsec''] True True [],
         Cmd [''which'', ''systemctl''] True True [],
         Cmd [''systemctl'', ''stop'', ''ntp''] True True [],
         FileWrite ''/etc/ntp.conf'' (Text (ntp_config None)) True,
         Cmd [''which'', ''systemctl''] True True [],
         Cmd [''systemctl'', ''start'', ''ntp''] True False ''Command execution failed: failed''])"
    using n2 by (simp add: Let_def ev_host_except io_host_except server_or_default_def truthy_def)
  have 3: "configure_legacy_time_ubuntu16 ?w3 [] (Some ''manual'') None (Some ''2024-12-01'') (Some ''10:00'')
     = (time_error ''Failed to set manual time: Command execution failed: failed'',
        [Cmd [''which'', ''systemctl''] True True [],
         Cmd [''systemctl'', ''stop'', ''ntp''] True True [],
         Cmd [''date'', ''-s'', ''2024-12-01 10:00:00''] True False ''Command execution failed: failed''])"
    using n3 by (simp add: Let_def ev_host_except py_str_def)
  from 1 2 v 3 show ?thesis by blast
qed

end
